theory Spec2Isabelle
  imports Complex_Main "HOL-Library.Sublist"
begin

section \<open>JSON values and HTTP responses\<close>

text \<open>
  The route handlers exchange JSON. A number in a JSON value is written as the rational
  that its text denotes: the routes pass such numbers on and compute nothing with them
  (the arithmetic of the follower stage and of the dashboard is that of doubles, see
  below). \<open>undefined\<close>, which is not a JSON value, is the \<open>None\<close> of an option.
\<close>

datatype json =
    JNull
  | JBool bool
  | JNum rat
  | JStr string
  | JArr "json list"
  | JObj "(string \<times> json) list"

text \<open>A thrown JavaScript error, with its \<open>message\<close>.\<close>

datatype js_error = SyntaxError string | TypeError string

fun message :: "js_error \<Rightarrow> string" where
  "message (SyntaxError m) = m"
| "message (TypeError m) = m"

text \<open>
  Property read \<open>v.k\<close> on a parsed JSON value, for a key that no prototype defines
  (such as \<open>data\<close>, \<open>scraped\<close> or \<open>rank\<close>): it throws on \<open>null\<close>, finds an own
  property of an object (the last one when the text repeated the key), and is
  \<open>undefined\<close> on everything else.
\<close>

fun getProp :: "json \<Rightarrow> string \<Rightarrow> js_error + json option" where
  "getProp JNull k =
     Inl (TypeError (''Cannot read properties of null (reading '' @ [CHR 0x27] @ k @ [CHR 0x27] @ '')''))"
| "getProp (JObj kvs) k = Inr (map_of (rev kvs) k)"
| "getProp _ k = Inr None"

text \<open>JavaScript truthiness of a value that may be \<open>undefined\<close>.\<close>

fun truthy :: "json option \<Rightarrow> bool" where
  "truthy None = False"
| "truthy (Some JNull) = False"
| "truthy (Some (JBool b)) = b"
| "truthy (Some (JNum r)) = (r \<noteq> 0)"
| "truthy (Some (JStr s)) = (s \<noteq> [])"
| "truthy (Some (JArr xs)) = True"
| "truthy (Some (JObj kvs)) = True"

fun isArray :: "json option \<Rightarrow> bool" where
  "isArray (Some (JArr xs)) = True"
| "isArray _ = False"

text \<open>\<open>NextResponse.json(body, {status})\<close>; the status is 200 when none is given.\<close>

record response =
  status :: nat
  body :: json

definition json_response :: "json \<Rightarrow> response" where
  "json_response b = \<lparr>status = 200, body = b\<rparr>"

definition ok :: "response \<Rightarrow> bool" where
  "ok r = (200 \<le> status r \<and> status r \<le> 299)"

text \<open>The response of a \<open>catch\<close> branch: status 500 and the message of the error.\<close>

definition failure :: "js_error \<Rightarrow> response" where
  "failure error =
     \<lparr>status = 500, body = JObj [(''success'', JBool False), (''error'', JStr (message error))]\<rparr>"

section \<open>Numbers and their decimal notation\<close>

text \<open>
  The value of a JavaScript numeric expression: \<open>NaN\<close>, a finite double, or an infinity
  (\<open>Infinite True\<close> is \<open>-Infinity\<close>). A finite double is written as the rational it is,
  and zero has no sign. Every operation below rounds its exact result to a double, as
  IEEE 754 binary64 arithmetic does.
\<close>

datatype number = NaN | Finite rat | Infinite bool

text \<open>The number of binary digits of a natural number.\<close>

fun bits :: "nat \<Rightarrow> nat" where
  "bits n = (if n = 0 then 0 else Suc (bits (n div 2)))"

declare bits.simps [simp del]

text \<open>The binary exponent of a positive rational \<open>a\<close>: the \<open>k\<close> with \<open>2 ^ k \<le> a < 2 ^ (k + 1)\<close>.\<close>

definition ilog2 :: "rat \<Rightarrow> int" where
  "ilog2 a = (if 1 \<le> a then int (bits (nat \<lfloor>a\<rfloor>)) - 1 else - int (bits (nat (\<lceil>1 / a\<rceil> - 1))))"

definition pow2 :: "int \<Rightarrow> rat" where
  "pow2 e = (if 0 \<le> e then 2 ^ nat e else 1 / 2 ^ nat (- e))"

text \<open>The nearest integer, the even one of two.\<close>

definition roundHalfEven :: "rat \<Rightarrow> int" where
  "roundHalfEven s =
     (let f = \<lfloor>s\<rfloor>; d = s - of_int f
      in if d < 1 / 2 then f else if 1 / 2 < d then f + 1 else if even f then f else f + 1)"

text \<open>
  The double nearest to a rational, ties to the even significand: the significand has
  53 binary digits, or fewer below \<open>2 ^ -1022\<close>, where the doubles are \<open>2 ^ -1074\<close>
  apart; a result of \<open>2 ^ 1024\<close> or more is an infinity.
\<close>

definition toDouble :: "rat \<Rightarrow> number" where
  "toDouble x =
     (if x = 0 then Finite 0
      else
        let a = \<bar>x\<bar>;
            e = max (ilog2 a - 52) (- 1074);
            r = of_int (roundHalfEven (a / pow2 e)) * pow2 e
        in if 2 ^ 1024 \<le> r then Infinite (x < 0)
           else Finite (if x < 0 then - r else r))"

text \<open>The operators \<open>*\<close> and \<open>+\<close>, and the comparison \<open>>\<close> with a finite number.\<close>

fun multiply :: "number \<Rightarrow> number \<Rightarrow> number" where
  "multiply (Finite a) (Finite b) = toDouble (a * b)"
| "multiply (Infinite s) (Finite b) = (if b = 0 then NaN else Infinite (s \<noteq> (b < 0)))"
| "multiply (Finite a) (Infinite s) = (if a = 0 then NaN else Infinite (s \<noteq> (a < 0)))"
| "multiply (Infinite s) (Infinite t) = Infinite (s \<noteq> t)"
| "multiply _ _ = NaN"

fun plus :: "number \<Rightarrow> number \<Rightarrow> number" where
  "plus (Finite a) (Finite b) = toDouble (a + b)"
| "plus (Infinite s) (Finite b) = Infinite s"
| "plus (Finite a) (Infinite s) = Infinite s"
| "plus (Infinite s) (Infinite t) = (if s = t then Infinite s else NaN)"
| "plus _ _ = NaN"

fun greater :: "number \<Rightarrow> rat \<Rightarrow> bool" where
  "greater (Finite a) b = (b < a)"
| "greater (Infinite s) b = (\<not> s)"
| "greater NaN b = False"

definition isDigit :: "char \<Rightarrow> bool" where
  "isDigit c = (c \<in> set ''0123456789'')"

text \<open>
  The white space of the ASCII range: space, tab, line feed, vertical tab, form feed and
  carriage return. A string is a list of bytes here.
\<close>

definition isWhiteSpace :: "char \<Rightarrow> bool" where
  "isWhiteSpace c = (c \<in> set [CHR 0x20, CHR 0x09, CHR 0x0A, CHR 0x0B, CHR 0x0C, CHR 0x0D])"

definition digitVal :: "char \<Rightarrow> nat" where
  "digitVal c = of_char c - 48"

text \<open>The value of a string of decimal digits, read from the left.\<close>

definition digitsVal :: "string \<Rightarrow> nat" where
  "digitsVal ds = foldl (\<lambda>a c. 10 * a + digitVal c) 0 ds"

text \<open>
  \<open>SignedInteger\<close> of the exponent: an optional sign and at least one digit, or nothing
  at all.
\<close>

definition signedInteger :: "string \<Rightarrow> int option" where
  "signedInteger s =
     (let neg = (case s of c # r \<Rightarrow> c = CHR ''-'' | [] \<Rightarrow> False);
          r = (case s of c # r \<Rightarrow> if c = CHR ''-'' \<or> c = CHR ''+'' then r else s | [] \<Rightarrow> s);
          ds = takeWhile isDigit r
      in if ds = [] then None
         else Some (if neg then - int (digitsVal ds) else int (digitsVal ds)))"

text \<open>
  \<open>ExponentPart\<close>, when the text after the mantissa starts with one: \<open>e\<close> or \<open>E\<close> and
  a signed integer. An \<open>e\<close> with no integer behind it is not part of the literal.
\<close>

definition exponentPart :: "string \<Rightarrow> int" where
  "exponentPart s =
     (case s of
        [] \<Rightarrow> 0
      | c # r \<Rightarrow> if c = CHR ''e'' \<or> c = CHR ''E''
                 then (case signedInteger r of None \<Rightarrow> 0 | Some e \<Rightarrow> e)
                 else 0)"

definition scale10 :: "rat \<Rightarrow> int \<Rightarrow> rat" where
  "scale10 m e = (if 0 \<le> e then m * 10 ^ nat e else m / 10 ^ nat (- e))"

text \<open>
  \<open>Number.parseFloat\<close>: leading white space is skipped, then the longest prefix that is
  a \<open>StrDecimalLiteral\<close> is read: an optional sign, then \<open>Infinity\<close> or digits with an
  optional fraction and exponent. There must be a digit before or after the point;
  otherwise the result is \<open>NaN\<close>. Whatever follows the literal is ignored. The result
  is the double nearest to the decimal value of the literal.
\<close>

definition parseFloat :: "string \<Rightarrow> number" where
  "parseFloat s =
     (let t = dropWhile isWhiteSpace s;
          neg = (case t of c # r \<Rightarrow> c = CHR ''-'' | [] \<Rightarrow> False);
          u = (case t of c # r \<Rightarrow> if c = CHR ''-'' \<or> c = CHR ''+'' then r else t | [] \<Rightarrow> t)
      in if prefix ''Infinity'' u then Infinite neg
         else
           let ip = takeWhile isDigit u;
               r1 = dropWhile isDigit u;
               fp = (case r1 of c # r \<Rightarrow> if c = CHR ''.'' then takeWhile isDigit r else [] | [] \<Rightarrow> []);
               r2 = (case r1 of c # r \<Rightarrow> if c = CHR ''.'' then dropWhile isDigit r else r1 | [] \<Rightarrow> r1)
           in if ip = [] \<and> fp = [] then NaN
              else
                let m = scale10 (of_nat (digitsVal (ip @ fp)) / 10 ^ length fp) (exponentPart r2)
                in toDouble (if neg then - m else m))"

subsection \<open>\<open>parseFollowers\<close> of the dashboard\<close>

text \<open>
  The empty string and \<open>"0"\<close> give 0. Otherwise the commas are deleted, the number is
  parsed, and it is scaled by a million when the string contains \<open>M\<close> or \<open>m\<close>, else by a
  thousand when it contains \<open>K\<close> or \<open>k\<close>.
\<close>

definition parseFollowers :: "string \<Rightarrow> number" where
  "parseFollowers followers =
     (if followers = [] \<or> followers = ''0'' then Finite 0
      else
        let num = parseFloat (filter (\<lambda>c. c \<noteq> CHR '','') followers)
        in if CHR ''M'' \<in> set followers \<or> CHR ''m'' \<in> set followers then multiply num (Finite 1000000)
           else if CHR ''K'' \<in> set followers \<or> CHR ''k'' \<in> set followers then multiply num (Finite 1000)
           else num)"

subsection \<open>Printing\<close>

text \<open>The decimal digit of a number below ten (it is applied to no other number).\<close>

definition digitChar :: "nat \<Rightarrow> char" where
  "digitChar d = ''0123456789'' ! d"

text \<open>A natural number in decimal notation, as \<open>String(n)\<close> writes it.\<close>

fun showNat :: "nat \<Rightarrow> string" where
  "showNat n = (if n < 10 then [digitChar n] else showNat (n div 10) @ [digitChar (n mod 10)])"

declare showNat.simps [simp del]

definition showInt :: "int \<Rightarrow> string" where
  "showInt i = (if i < 0 then ''-'' @ showNat (nat (- i)) else showNat (nat i))"

text \<open>
  \<open>x.toFixed(f)\<close>. For a finite \<open>x\<close> with \<open>|x| < 10 ^ 21\<close>: the sign, then the integer
  \<open>n\<close> nearest to \<open>|x| * 10 ^ f\<close> (the larger one of two), written with at least
  \<open>f + 1\<close> digits and a point before the last \<open>f\<close> of them. The value rounded is the
  exact value of the double.
\<close>

definition fixedDigits :: "rat \<Rightarrow> nat \<Rightarrow> string" where
  "fixedDigits x f =
     (let n = nat \<lfloor>\<bar>x\<bar> * 10 ^ f + 1 / 2\<rfloor>;
          m = showNat n;
          padded = replicate (f + 1 - length m) (CHR ''0'') @ m;
          k = length padded;
          digits = (if f = 0 then padded else take (k - f) padded @ ''.'' @ drop (k - f) padded)
      in if x < 0 then ''-'' @ digits else digits)"

fun toFixed :: "number \<Rightarrow> nat \<Rightarrow> string" where
  "toFixed (Finite x) f = fixedDigits x f"
| "toFixed NaN f = ''NaN''"
| "toFixed (Infinite s) f = (if s then ''-Infinity'' else ''Infinity'')"

text \<open>
  The number that the digits \<open>i\<close>, a point and the digits \<open>fs\<close> denote.
\<close>

definition decimalValue :: "nat \<Rightarrow> string \<Rightarrow> rat" where
  "decimalValue i fs = of_nat i + of_nat (digitsVal fs) / 10 ^ length fs"

text \<open>What follows the digits of a number: nothing, or a character that ends the literal.\<close>

definition endsLiteral :: "string \<Rightarrow> bool" where
  "endsLiteral rest = (case rest of [] \<Rightarrow> True | c # r \<Rightarrow> \<not> isDigit c \<and> c \<noteq> CHR ''e'' \<and> c \<noteq> CHR ''E'')"

section \<open>The records of the pipeline\<close>

text \<open>
  An entry of the table \<open>coinGeckoData\<close> of the listing route. Its field names are
  written with the record's name wherever a later record has a field of the same name.
\<close>

record CoinGeckoEntry =
  rank :: int
  name :: string
  symbol :: string
  slug :: string
  coingecko_url :: string
  twitter_pattern :: string
  twitter_handle :: "string option"
  market_cap :: "rat option"
  price :: rat

text \<open>
  The fields shared by a coin of the listing stage and a row of the follower stage.
  A handle and a profile URL are a string or \<open>null\<close>; \<open>market_cap\<close> may be
  \<open>null\<close> (the code guards it with \<open>|| 0\<close>).
\<close>

record coin_fields =
  rank :: int
  symbol :: string
  twitter_handle :: "string option"
  twitter_url :: "string option"
  market_cap :: "rat option"
  price :: rat

text \<open>
  A coin as the follower route reads it (the default coins have exactly these fields),
  and an element of \<open>coinData\<close> as the listing route builds it, with its image.
\<close>

record Coin = coin_fields +
  name :: string

record CoinData = Coin +
  image :: string

text \<open>
  The value of the \<open>followers\<close> field of a row. It is a text, except when the follower
  stage finds, under the URL of the coin, a member that the table inherits from
  \<open>Object.prototype\<close>: then it is that member (a function, or the prototype object
  itself under \<open>__proto__\<close>).
\<close>

datatype followers_value = Text string | Member string

text \<open>\<open>interface CryptoFollower\<close>: a row of the follower stage and of the store.\<close>

record CryptoFollower = coin_fields +
  coin_name :: string
  followers :: followers_value
  last_updated :: string

definition nullable :: "('a \<Rightarrow> json) \<Rightarrow> 'a option \<Rightarrow> json" where
  "nullable f v = (case v of None \<Rightarrow> JNull | Some x \<Rightarrow> f x)"

text \<open>
  What \<open>JSON.stringify\<close> writes for the \<open>followers\<close> field: the text; nothing for a
  function; the empty object for \<open>Object.prototype\<close>, which has no enumerable member.
\<close>

fun followersMember :: "followers_value \<Rightarrow> (string \<times> json) list" where
  "followersMember (Text s) = [(''followers'', JStr s)]"
| "followersMember (Member k) = (if k = ''__proto__'' then [(''followers'', JObj [])] else [])"

text \<open>The JSON object a row is serialised to, keys in the order the code writes them.\<close>

definition toJSON :: "CryptoFollower \<Rightarrow> json" where
  "toJSON r = JObj
     ([(''coin_name'', JStr (coin_name r)),
       (''symbol'', JStr (symbol r)),
       (''twitter_handle'', nullable JStr (twitter_handle r)),
       (''twitter_url'', nullable JStr (twitter_url r))]
      @ followersMember (followers r)
      @ [(''market_cap'', nullable JNum (market_cap r)),
         (''price'', JNum (price r)),
         (''rank'', JNum (of_int (rank r))),
         (''last_updated'', JStr (last_updated r))])"

text \<open>JavaScript truthiness of a string that may be \<open>null\<close>.\<close>

definition truthyStr :: "string option \<Rightarrow> bool" where
  "truthyStr v = (case v of None \<Rightarrow> False | Some s \<Rightarrow> s \<noteq> [])"

text \<open>
  The two sources of values a handler does not compute: \<open>random k\<close> is what the
  \<open>k\<close>-th call of \<open>Math.random()\<close> in a request returns (a number from 0 up to, not
  including, 1; the double nearest to it is used), \<open>clock k\<close> what the \<open>k\<close>-th
  \<open>new Date().toISOString()\<close> returns.
\<close>

record env =
  random :: "nat \<Rightarrow> rat"
  clock :: "nat \<Rightarrow> string"

section \<open>The result store: route \<open>/api/followers\<close>\<close>

text \<open>A row of \<open>sampleData\<close>, from its field values in the order the source writes them.\<close>

definition mkFollower ::
  "string \<Rightarrow> string \<Rightarrow> string \<Rightarrow> string \<Rightarrow> string \<Rightarrow> rat \<Rightarrow> rat \<Rightarrow> int \<Rightarrow> string \<Rightarrow> CryptoFollower" where
  "mkFollower n s h u f m p r t =
     \<lparr>rank = r, symbol = s, twitter_handle = Some h, twitter_url = Some u,
      market_cap = Some m, price = p, coin_name = n, followers = Text f, last_updated = t\<rparr>"

text \<open>
  \<open>sampleData\<close>. Its timestamps are read from the clock once, when the module is loaded;
  \<open>loaded\<close> is that reading.
\<close>

definition sampleData :: "string \<Rightarrow> CryptoFollower list" where
  "sampleData loaded =
     [mkFollower ''Bitcoin'' ''BTC'' ''bitcoin'' ''https://x.com/bitcoin'' ''5.2M''
        1280000000000 (6543221 / 100) 1 loaded,
      mkFollower ''Ethereum'' ''ETH'' ''ethereum'' ''https://x.com/ethereum'' ''3.1M''
        425000000000 (354218 / 100) 2 loaded,
      mkFollower ''Tether USDt'' ''USDT'' ''Tether_to'' ''https://x.com/Tether_to'' ''1.8M''
        125000000000 1 3 loaded,
      mkFollower ''BNB'' ''BNB'' ''BNBCHAIN'' ''https://x.com/BNBCHAIN'' ''2.4M''
        98000000000 (67245 / 100) 4 loaded,
      mkFollower ''Solana'' ''SOL'' ''solana'' ''https://x.com/solana'' ''1.9M''
        89000000000 (19567 / 100) 5 loaded,
      mkFollower ''XRP'' ''XRP'' ''Ripple'' ''https://x.com/Ripple'' ''3.5M''
        78000000000 (138 / 100) 6 loaded,
      mkFollower ''Dogecoin'' ''DOGE'' ''dogecoin'' ''https://x.com/dogecoin'' ''2.8M''
        58000000000 (39 / 100) 7 loaded,
      mkFollower ''Cardano'' ''ADA'' ''Cardano'' ''https://x.com/Cardano'' ''1.2M''
        47000000000 (132 / 100) 8 loaded]"

text \<open>
  The module variable \<open>scrapedCryptoData\<close> is the state of the route: a list of JSON
  values, \<open>[]\<close> when the module is loaded.
\<close>

type_synonym store = "json list"

definition initialStore :: store where
  "initialStore = []"

text \<open>\<open>GET\<close>: the stored rows when there are any, the sample rows otherwise.\<close>

definition followers_GET :: "string \<Rightarrow> store \<Rightarrow> response" where
  "followers_GET loaded scrapedCryptoData =
     (if length scrapedCryptoData > 0 then json_response (JArr scrapedCryptoData)
      else json_response (JArr (map toJSON (sampleData loaded))))"

text \<open>
  \<open>POST\<close>. The request is \<open>Inl e\<close> when \<open>request.json()\<close> rejects with \<open>e\<close> (the
  text is not JSON) and \<open>Inr b\<close> when it parses to \<open>b\<close>. The result is the response
  and the new value of \<open>scrapedCryptoData\<close>.
\<close>

definition followers_POST :: "js_error + json \<Rightarrow> store \<Rightarrow> response \<times> store" where
  "followers_POST request scrapedCryptoData =
     (case request of
        Inl error \<Rightarrow> (failure error, scrapedCryptoData)
      | Inr b \<Rightarrow>
          (case getProp b ''data'' of
             Inl error \<Rightarrow> (failure error, scrapedCryptoData)
           | Inr d \<Rightarrow>
               let stored = (if truthy d \<and> isArray d
                             then (case d of Some (JArr xs) \<Rightarrow> xs | _ \<Rightarrow> scrapedCryptoData)
                             else scrapedCryptoData)
               in (json_response (JObj [(''success'', JBool True),
                                        (''message'', JStr ''Data stored successfully''),
                                        (''count'', JNum (of_nat (length stored)))]),
                   stored)))"

text \<open>
  The state of the route after a sequence of \<open>POST\<close> requests, oldest first, from the
  moment the module is loaded.
\<close>

definition storeAfter :: "(js_error + json) list \<Rightarrow> store" where
  "storeAfter posts = foldl (\<lambda>st request. snd (followers_POST request st)) initialStore posts"

text \<open>
  A well-formed payload is a body that is an object whose \<open>data\<close> member is an array;
  \<open>wellFormed\<close> gives that array. The datasets committed by a sequence of requests are the
  arrays of its well-formed payloads.
\<close>

fun wellFormed :: "js_error + json \<Rightarrow> json list option" where
  "wellFormed (Inr (JObj kvs)) =
     (case map_of (rev kvs) ''data'' of Some (JArr xs) \<Rightarrow> Some xs | _ \<Rightarrow> None)"
| "wellFormed _ = None"

definition committed :: "(js_error + json) list \<Rightarrow> json list list" where
  "committed posts = List.map_filter wellFormed posts"

section \<open>The listing stage: route \<open>/api/scrape-coingecko\<close>\<close>

text \<open>
  An entry of \<open>coinGeckoData\<close>. The URL of the coin's page and the anchor pattern are
  written from the slug and the handle, as every entry of the source has them.
\<close>

definition entry ::
  "int \<Rightarrow> string \<Rightarrow> string \<Rightarrow> string \<Rightarrow> string \<Rightarrow> rat \<Rightarrow> rat \<Rightarrow> CoinGeckoEntry" where
  "entry r n s sl h m p =
     \<lparr>CoinGeckoEntry.rank = r, CoinGeckoEntry.name = n, CoinGeckoEntry.symbol = s, slug = sl,
      coingecko_url = ''https://www.coingecko.com/en/coins/'' @ sl,
      twitter_pattern = ''<a target='' @ [CHR 0x22] @ ''_blank'' @ [CHR 0x22] @ '' href='' @ [CHR 0x22]
         @ ''https://twitter.com/'' @ h @ [CHR 0x22] @ '' rel='' @ [CHR 0x22] @ ''nofollow noopener''
         @ [CHR 0x22] @ ''>'',
      CoinGeckoEntry.twitter_handle = Some h, CoinGeckoEntry.market_cap = Some m,
      CoinGeckoEntry.price = p\<rparr>"

definition coinGeckoData :: "CoinGeckoEntry list" where
  "coinGeckoData =
     [entry 1 ''Bitcoin'' ''BTC'' ''bitcoin'' ''bitcoin'' 1280000000000 (6543221 / 100),
      entry 2 ''Ethereum'' ''ETH'' ''ethereum'' ''ethereum'' 425000000000 (354218 / 100),
      entry 3 ''Tether USDt'' ''USDT'' ''tether'' ''Tether_to'' 125000000000 1,
      entry 4 ''BNB'' ''BNB'' ''binancecoin'' ''BNBCHAIN'' 98000000000 (67245 / 100),
      entry 5 ''Solana'' ''SOL'' ''solana'' ''solana'' 89000000000 (19567 / 100),
      entry 6 ''XRP'' ''XRP'' ''ripple'' ''Ripple'' 78000000000 (138 / 100),
      entry 7 ''Dogecoin'' ''DOGE'' ''dogecoin'' ''dogecoin'' 58000000000 (39 / 100),
      entry 8 ''Cardano'' ''ADA'' ''cardano'' ''Cardano'' 47000000000 (132 / 100),
      entry 9 ''Avalanche'' ''AVAX'' ''avalanche-2'' ''avax'' 38000000000 (9845 / 100),
      entry 10 ''Chainlink'' ''LINK'' ''chainlink'' ''chainlink'' 34000000000 (2378 / 100)]"

text \<open>
  One iteration of the loop over the entries; the state is the pair of the arrays
  \<open>twitterAccounts\<close> and \<open>coinData\<close>.
\<close>

definition scrapeCoin :: "string list \<times> CoinData list \<Rightarrow> CoinGeckoEntry \<Rightarrow> string list \<times> CoinData list" where
  "scrapeCoin acc coin =
     (if truthyStr (CoinGeckoEntry.twitter_handle coin) then
        (let handle = (case CoinGeckoEntry.twitter_handle coin of Some h \<Rightarrow> h | None \<Rightarrow> []);
             twitterUrl = ''https://x.com/'' @ handle
         in (fst acc @ [twitterUrl],
             snd acc @
               [\<lparr>rank = CoinGeckoEntry.rank coin, symbol = CoinGeckoEntry.symbol coin,
                 twitter_handle = CoinGeckoEntry.twitter_handle coin, twitter_url = Some twitterUrl,
                 market_cap = CoinGeckoEntry.market_cap coin, price = CoinGeckoEntry.price coin,
                 name = CoinGeckoEntry.name coin,
                 image = ''https://assets.coingecko.com/coins/images/''
                    @ showInt (CoinGeckoEntry.rank coin * 100) @ ''/large/'' @ slug coin @ ''.png''\<rparr>]))
      else
        (fst acc,
         snd acc @
           [\<lparr>rank = CoinGeckoEntry.rank coin, symbol = CoinGeckoEntry.symbol coin,
             twitter_handle = None, twitter_url = None,
             market_cap = CoinGeckoEntry.market_cap coin, price = CoinGeckoEntry.price coin,
             name = CoinGeckoEntry.name coin, image = []\<rparr>]))"

definition scrapeCoins :: "CoinGeckoEntry list \<Rightarrow> string list \<times> CoinData list" where
  "scrapeCoins entries = foldl scrapeCoin ([], []) entries"

text \<open>
  The body of the route's response, with the fields the dashboard reads and the
  timestamp; the two constant texts \<open>message\<close> and \<open>pattern_used\<close> are left out.
\<close>

record coingecko_result =
  success :: bool
  totalCoins :: nat
  twitterAccounts :: nat
  coinData :: "CoinData list"
  twitterUrls :: "string list"
  timestamp :: string

text \<open>
  \<open>POST\<close>: the status and the body. Nothing in the \<open>try\<close> block throws, so the \<open>catch\<close>
  branch is never taken.
\<close>

definition scrape_coingecko_POST :: "env \<Rightarrow> nat \<times> coingecko_result" where
  "scrape_coingecko_POST e =
     (let found = scrapeCoins coinGeckoData
      in (200,
          \<lparr>success = True,
           totalCoins = length (snd found),
           twitterAccounts = length (fst found),
           coinData = snd found,
           twitterUrls = fst found,
           timestamp = clock e 0\<rparr>))"

section \<open>The follower stage: route \<open>/api/scrape-twitter\<close>\<close>

text \<open>
  \<open>actualTwitterFollowers\<close>, the table that stands for the profile pages. The handlers
  below take the table as an argument \<open>tbl\<close>; the route passes this one.
\<close>

definition actualTwitterFollowers :: "(string \<times> string) list" where
  "actualTwitterFollowers =
     [(''https://x.com/bitcoin'', ''5.2M''),
      (''https://x.com/ethereum'', ''3.1M''),
      (''https://x.com/Tether_to'', ''1.8M''),
      (''https://x.com/BNBCHAIN'', ''2.4M''),
      (''https://x.com/solana'', ''1.9M''),
      (''https://x.com/Ripple'', ''3.5M''),
      (''https://x.com/dogecoin'', ''2.8M''),
      (''https://x.com/Cardano'', ''1.2M''),
      (''https://x.com/avax'', ''890K''),
      (''https://x.com/chainlink'', ''1.1M'')]"

text \<open>
  The table is an object literal, so a read \<open>tbl[k]\<close> finds the text of an own key, or
  else a member inherited from \<open>Object.prototype\<close> under one of the names below, or
  else \<open>undefined\<close>. An inherited member is a function or an object, and truthy.
\<close>

definition objectMembers :: "string list" where
  "objectMembers =
     [''constructor'', ''__defineGetter__'', ''__defineSetter__'', ''hasOwnProperty'',
      ''__lookupGetter__'', ''__lookupSetter__'', ''isPrototypeOf'', ''propertyIsEnumerable'',
      ''toString'', ''valueOf'', ''__proto__'', ''toLocaleString'']"

definition readTable :: "(string \<times> string) list \<Rightarrow> string \<Rightarrow> followers_value option" where
  "readTable tbl k =
     (case map_of tbl k of
        Some v \<Rightarrow> Some (Text v)
      | None \<Rightarrow> if k \<in> set objectMembers then Some (Member k) else None)"

fun truthyValue :: "followers_value option \<Rightarrow> bool" where
  "truthyValue None = False"
| "truthyValue (Some (Text v)) = (v \<noteq> [])"
| "truthyValue (Some (Member k)) = True"

text \<open>
  The state of the loop of \<open>processCryptoData\<close>: the rows pushed so far, the number of
  random draws and of clock readings made, and the URLs whose follower count was looked
  up (one entry for each evaluation of \<open>actualTwitterFollowers[coin.twitter_url]\<close>).
\<close>

record scrape_state =
  scrapedData :: "CryptoFollower list"
  draws :: nat
  reads :: nat
  lookedUp :: "string list"

definition initialScrape :: scrape_state where
  "initialScrape = \<lparr>scrapedData = [], draws = 0, reads = 0, lookedUp = []\<rparr>"

text \<open>
  The generated count of a coin for whose URL the table has nothing: \<open>cap\<close> is the
  coin's \<open>market_cap\<close> and \<open>r\<close> the random draw. The arithmetic is that of doubles.
\<close>

definition fallbackFollowers :: "rat option \<Rightarrow> rat \<Rightarrow> string" where
  "fallbackFollowers cap r =
     (let marketCap = (case cap of None \<Rightarrow> Finite 0 | Some m \<Rightarrow> toDouble m);
          draw = toDouble r
      in if greater marketCap 100000000000
         then toFixed (plus (multiply draw (Finite 3)) (Finite 2)) 1 @ ''M''
         else if greater marketCap 50000000000
         then toFixed (plus (multiply draw (Finite 2)) (Finite 1)) 1 @ ''M''
         else if greater marketCap 10000000000
         then toFixed (plus (multiply draw (Finite 900)) (Finite 500)) 0 @ ''K''
         else toFixed (plus (multiply draw (Finite 500)) (Finite 100)) 0 @ ''K'')"

text \<open>The row pushed for a coin, given the value of its \<open>followers\<close> field.\<close>

definition scrapedRow ::
  "'a Coin_scheme \<Rightarrow> string option \<Rightarrow> string option \<Rightarrow> followers_value \<Rightarrow> string \<Rightarrow> CryptoFollower" where
  "scrapedRow coin handle url count now =
     \<lparr>rank = rank coin, symbol = symbol coin, twitter_handle = handle, twitter_url = url,
      market_cap = market_cap coin, price = price coin,
      coin_name = name coin, followers = count, last_updated = now\<rparr>"

text \<open>
  One iteration of the loop. The delays and the console output of the source are left
  out: they change no value.
\<close>

definition processCoin ::
  "(string \<times> string) list \<Rightarrow> env \<Rightarrow> scrape_state \<Rightarrow> 'a Coin_scheme \<Rightarrow> scrape_state" where
  "processCoin tbl e st coin =
     (if truthyStr (twitter_url coin) \<and> truthyStr (twitter_handle coin) then
        (let url = (case twitter_url coin of Some u \<Rightarrow> u | None \<Rightarrow> []);
             found = readTable tbl url;
             count = (if truthyValue found then (case found of Some f \<Rightarrow> f | None \<Rightarrow> Text [])
                      else Text (fallbackFollowers (market_cap coin) (random e (draws st))))
         in \<lparr>scrapedData = scrapedData st @
                 [scrapedRow coin (twitter_handle coin) (twitter_url coin) count (clock e (reads st))],
             draws = (if truthyValue found then draws st else draws st + 1),
             reads = reads st + 1,
             lookedUp = lookedUp st @ [url]\<rparr>)
      else
        \<lparr>scrapedData = scrapedData st @
            [scrapedRow coin None None (Text ''No Twitter'') (clock e (reads st))],
         draws = draws st,
         reads = reads st + 1,
         lookedUp = lookedUp st\<rparr>)"

text \<open>The loop over \<open>cryptoData\<close>.\<close>

definition scrapeLoop ::
  "(string \<times> string) list \<Rightarrow> env \<Rightarrow> 'a Coin_scheme list \<Rightarrow> scrape_state" where
  "scrapeLoop tbl e cryptoData = foldl (processCoin tbl e) initialScrape cryptoData"

text \<open>\<open>processCryptoData\<close>: the loop, then the response.\<close>

definition processCryptoData ::
  "(string \<times> string) list \<Rightarrow> env \<Rightarrow> 'a Coin_scheme list \<Rightarrow> response" where
  "processCryptoData tbl e cryptoData =
     (let st = scrapeLoop tbl e cryptoData
      in json_response (JObj
           [(''success'', JBool True),
            (''scraped'', JNum (of_nat (length (scrapedData st)))),
            (''data'', JArr (map toJSON (scrapedData st))),
            (''message'', JStr ''Successfully scraped Twitter follower data using Selenium-like approach''),
            (''method'', JStr ''Chrome browser automation with data-testid selectors''),
            (''timestamp'', JStr (clock e (reads st)))]))"

definition defaultCryptoData :: "Coin list" where
  "defaultCryptoData =
     [\<lparr>rank = 1, symbol = ''BTC'', twitter_handle = Some ''bitcoin'',
       twitter_url = Some ''https://x.com/bitcoin'', market_cap = Some 1280000000000,
       price = 6543221 / 100, name = ''Bitcoin''\<rparr>,
      \<lparr>rank = 2, symbol = ''ETH'', twitter_handle = Some ''ethereum'',
       twitter_url = Some ''https://x.com/ethereum'', market_cap = Some 425000000000,
       price = 354218 / 100, name = ''Ethereum''\<rparr>]"

text \<open>
  The parsed body of a request to the route: \<open>cryptoData\<close> and \<open>twitterUrls\<close> are
  arrays, or absent (\<open>None\<close>). The request itself is \<open>Inl e\<close> when \<open>request.json()\<close>
  rejects with \<open>e\<close>, \<open>Inr None\<close> when the body is the JSON text \<open>null\<close>. In the
  handler, \<open>coins\<close> is the source's \<open>cryptoData\<close> and \<open>accounts\<close> its
  \<open>twitterAccounts\<close>.
\<close>

record 'a twitter_body =
  cryptoData :: "'a Coin_scheme list option"
  twitterUrls :: "string list option"

definition scrape_twitter_POST ::
  "(string \<times> string) list \<Rightarrow> env \<Rightarrow> js_error + 'a twitter_body option \<Rightarrow> response" where
  "scrape_twitter_POST tbl e request =
     (case request of
        Inl error \<Rightarrow> failure error
      | Inr None \<Rightarrow>
          failure (TypeError (''Cannot read properties of null (reading '' @ [CHR 0x27] @ ''cryptoData'' @ [CHR 0x27] @ '')''))
      | Inr (Some b) \<Rightarrow>
          (let coins = (case cryptoData b of None \<Rightarrow> [] | Some xs \<Rightarrow> xs);
               accounts = (case twitterUrls b of None \<Rightarrow> [] | Some us \<Rightarrow> us)
           in if length accounts = 0 then processCryptoData tbl e defaultCryptoData
              else processCryptoData tbl e coins))"

section \<open>The dashboard: \<open>runFullScraper\<close> and its callbacks\<close>

text \<open>
  The state variables \<open>scraping\<close>, \<open>scrapingStep\<close> and \<open>scrapingStatus\<close> of the
  dashboard, and \<open>cryptoData\<close>, the rows it shows (here \<open>shownData\<close>). A status text
  is a constructor, with the numbers the text quotes.
\<close>

datatype step = Idle | CoinGecko | Twitter | Complete

datatype status_text =
    NoStatus
  | StartingCoinGecko
  | CoinGeckoFound nat nat
  | CoinGeckoFailed
  | StartingTwitter
  | TwitterScraped "json option"
  | TwitterFailed
  | ScrapingComplete

record dashboard =
  scraping :: bool
  scrapingStep :: step
  scrapingStatus :: status_text
  shownData :: "json option"

text \<open>
  What has been started and has not yet called back: a request in flight or a timer.
  A task holds the values its continuation has captured.
\<close>

datatype task =
    ListingRequest
  | Timer3000 coingecko_result
  | Timer5000
  | TwitterRequest "unit CoinData_ext twitter_body"
  | StoreRequest "json option"
  | Refresh

text \<open>
  The whole system: the dashboard, the variable \<open>scrapedCryptoData\<close> of the store
  route, and the tasks under way, oldest first.
\<close>

record system =
  ui :: dashboard
  server :: store
  pending :: "task list"

datatype event =
    Click
  | ListingResponse
  | Timer3000Fires
  | Timer5000Fires
  | TwitterResponse
  | StoreResponse
  | RefreshResponse

fun completes :: "task \<Rightarrow> event" where
  "completes ListingRequest = ListingResponse"
| "completes (Timer3000 r) = Timer3000Fires"
| "completes Timer5000 = Timer5000Fires"
| "completes (TwitterRequest b) = TwitterResponse"
| "completes (StoreRequest d) = StoreResponse"
| "completes Refresh = RefreshResponse"

text \<open>The oldest task under way that an event completes, and the tasks that remain.\<close>

fun take_task :: "event \<Rightarrow> task list \<Rightarrow> (task \<times> task list) option" where
  "take_task ev [] = None"
| "take_task ev (t # ts) =
     (if completes t = ev then Some (t, ts)
      else (case take_task ev ts of None \<Rightarrow> None | Some (u, us) \<Rightarrow> Some (u, t # us)))"

text \<open>
  \<open>runFullScraper\<close> up to its first \<open>await\<close>: the three state updates and the request
  to the listing route. There is no test of the state before them.
\<close>

definition runFullScraper :: "system \<Rightarrow> system" where
  "runFullScraper sys =
     sys\<lparr>ui := (ui sys)\<lparr>scraping := True, scrapingStep := CoinGecko,
                           scrapingStatus := StartingCoinGecko\<rparr>,
         pending := pending sys @ [ListingRequest]\<rparr>"

text \<open>
  The button \<open>Get Real Data\<close> has \<open>onClick={runFullScraper}\<close> and
  \<open>disabled={scraping}\<close>: a click on the disabled button calls nothing.
\<close>

definition click :: "system \<Rightarrow> system" where
  "click sys = (if scraping (ui sys) then sys else runFullScraper sys)"

text \<open>
  The continuation of the listing request. When the response is \<open>ok\<close> it starts the
  timer of 3000 ms around the follower stage; in both cases the \<open>finally\<close> block then
  starts the timer of 5000 ms.
\<close>

definition afterListing :: "env \<Rightarrow> system \<Rightarrow> system" where
  "afterListing eL sys =
     (let (code, coinGeckoResult) = scrape_coingecko_POST eL
      in if 200 \<le> code \<and> code \<le> 299 then
           sys\<lparr>ui := (ui sys)\<lparr>scrapingStatus :=
                                   CoinGeckoFound (twitterAccounts coinGeckoResult) (totalCoins coinGeckoResult),
                                 scrapingStep := Twitter\<rparr>,
               pending := pending sys @ [Timer3000 coinGeckoResult, Timer5000]\<rparr>
         else
           sys\<lparr>ui := (ui sys)\<lparr>scrapingStatus := CoinGeckoFailed, scrapingStep := Idle\<rparr>,
               pending := pending sys @ [Timer5000]\<rparr>)"

text \<open>The timer of 3000 ms: the request to the follower route, with the listing's data.\<close>

definition afterTimer3000 :: "coingecko_result \<Rightarrow> system \<Rightarrow> system" where
  "afterTimer3000 coinGeckoResult sys =
     sys\<lparr>ui := (ui sys)\<lparr>scrapingStatus := StartingTwitter\<rparr>,
         pending := pending sys @
           [TwitterRequest \<lparr>cryptoData = Some (coinData coinGeckoResult),
                            twitterUrls = Some (coingecko_result.twitterUrls coinGeckoResult)\<rparr>]\<rparr>"

text \<open>A member of a response body, \<open>undefined\<close> when there is none.\<close>

definition member :: "json \<Rightarrow> string \<Rightarrow> json option" where
  "member j k = (case getProp j k of Inr v \<Rightarrow> v | Inl error \<Rightarrow> None)"

text \<open>
  The continuation of the follower request: when the response is \<open>ok\<close>, its \<open>data\<close> is
  posted to the store route.
\<close>

definition afterTwitter :: "env \<Rightarrow> unit CoinData_ext twitter_body \<Rightarrow> system \<Rightarrow> system" where
  "afterTwitter eT b sys =
     (let twitterResponse = scrape_twitter_POST actualTwitterFollowers eT (Inr (Some b))
      in if ok twitterResponse then
           sys\<lparr>ui := (ui sys)\<lparr>scrapingStatus := TwitterScraped (member (body twitterResponse) ''scraped''),
                                 scrapingStep := Complete\<rparr>,
               pending := pending sys @ [StoreRequest (member (body twitterResponse) ''data'')]\<rparr>
         else
           sys\<lparr>ui := (ui sys)\<lparr>scrapingStatus := TwitterFailed, scrapingStep := Idle\<rparr>\<rparr>)"

text \<open>
  The store route handles \<open>JSON.stringify({data: d})\<close> (an \<open>undefined\<close> member is not
  written); then \<open>fetchData\<close> is called.
\<close>

definition afterStore :: "json option \<Rightarrow> system \<Rightarrow> system" where
  "afterStore d sys =
     (let payload = JObj (case d of None \<Rightarrow> [] | Some v \<Rightarrow> [(''data'', v)])
      in sys\<lparr>server := snd (followers_POST (Inr payload) (server sys)),
             pending := pending sys @ [Refresh]\<rparr>)"

text \<open>\<open>fetchData\<close>: the rows of the store route are shown; then the last status text.\<close>

definition afterRefresh :: "string \<Rightarrow> system \<Rightarrow> system" where
  "afterRefresh loaded sys =
     (let response = followers_GET loaded (server sys)
      in sys\<lparr>ui := (ui sys)\<lparr>shownData := (if ok response then Some (body response) else shownData (ui sys)),
                              scrapingStatus := ScrapingComplete\<rparr>\<rparr>)"

text \<open>The timer of 5000 ms of the \<open>finally\<close> block.\<close>

definition afterTimer5000 :: "system \<Rightarrow> system" where
  "afterTimer5000 sys = sys\<lparr>ui := (ui sys)\<lparr>scraping := False, scrapingStep := Idle\<rparr>\<rparr>"

text \<open>
  One event: a click, or the completion of the oldest matching task under way (an
  event that completes no task changes nothing). Each callback of the source runs to its
  next \<open>await\<close> without interruption, and a route handles a request when the response
  event occurs. A request that fails in the network is not modelled: every request
  under way is answered by its route. \<open>eL\<close> and \<open>eT\<close> are the clock and the
  random source of the listing and the follower route, \<open>loaded\<close> the time the store
  route was loaded.
\<close>

definition fire :: "env \<Rightarrow> env \<Rightarrow> string \<Rightarrow> system \<Rightarrow> event \<Rightarrow> system" where
  "fire eL eT loaded sys ev =
     (if ev = Click then click sys
      else
        (case take_task ev (pending sys) of
           None \<Rightarrow> sys
         | Some (t, rest) \<Rightarrow>
             (let sys' = sys\<lparr>pending := rest\<rparr>
              in case t of
                   ListingRequest \<Rightarrow> afterListing eL sys'
                 | Timer3000 r \<Rightarrow> afterTimer3000 r sys'
                 | Timer5000 \<Rightarrow> afterTimer5000 sys'
                 | TwitterRequest b \<Rightarrow> afterTwitter eT b sys'
                 | StoreRequest d \<Rightarrow> afterStore d sys'
                 | Refresh \<Rightarrow> afterRefresh loaded sys')))"

definition exec :: "env \<Rightarrow> env \<Rightarrow> string \<Rightarrow> system \<Rightarrow> event list \<Rightarrow> system" where
  "exec eL eT loaded sys evs = foldl (fire eL eT loaded) sys evs"

text \<open>
  The dashboard and the store as they are when nothing has run yet: the dashboard shows
  the empty array, its status text is empty, and the store holds no row.
\<close>

definition atRest :: system where
  "atRest = \<lparr>ui = \<lparr>scraping = False, scrapingStep = Idle, scrapingStatus = NoStatus, shownData = Some (JArr [])\<rparr>,
             server = initialStore, pending = []\<rparr>"

text \<open>
  The events of one run in the order of their times: the 5000 ms timer fires 2000 ms
  after the follower request is sent, and the follower route takes 3900 ms for each coin
  with a handle before it answers.
\<close>

definition oneRun :: "event list" where
  "oneRun = [Click, ListingResponse, Timer3000Fires, Timer5000Fires, TwitterResponse,
             StoreResponse, RefreshResponse]"

section \<open>Scenarios\<close>

text \<open>
  The end-to-end scenario of the specification: the listing has Record A, with the
  handle \<open>alpha\<close>, and Record B, with no handle. The table of the code has no profile
  of \<open>alpha\<close>, so the count of Record A is generated: with a market capitalisation
  above \<open>10 ^ 11\<close> and the draw 5/32 the follower stage makes \<open>2.5M\<close> of it. The other
  fields are chosen here.
\<close>

definition recordA :: Coin where
  "recordA = \<lparr>rank = 1, symbol = ''ALP'', twitter_handle = Some ''alpha'',
               twitter_url = Some ''https://x.com/alpha'', market_cap = Some 200000000000,
               price = 3 / 2, name = ''Alpha''\<rparr>"

definition recordB :: Coin where
  "recordB = \<lparr>rank = 2, symbol = ''BET'', twitter_handle = None, twitter_url = None,
               market_cap = Some 1000000000, price = 1 / 2, name = ''Beta''\<rparr>"

definition scenarioEnv :: env where
  "scenarioEnv = \<lparr>random = (\<lambda>k. 5 / 32), clock = (\<lambda>k. ''2024-03-06T00:00:00.000Z'')\<rparr>"

definition scenarioRequest :: "js_error + unit twitter_body option" where
  "scenarioRequest =
     Inr (Some \<lparr>cryptoData = Some [recordA, recordB], twitterUrls = Some [''https://x.com/alpha'']\<rparr>)"


text \<open>The rows of a response of the follower route: the array \<open>data\<close> of its body.\<close>

definition dataRows :: "response \<Rightarrow> json list" where
  "dataRows r = (case member (body r) ''data'' of Some (JArr rows) \<Rightarrow> rows | _ \<Rightarrow> [])"

text \<open>The values of one member in a list of JSON rows.\<close>

definition column :: "string \<Rightarrow> json list \<Rightarrow> json option list" where
  "column k rows = map (\<lambda>row. member row k) rows"

text \<open>
  Two coins for the follower stage: Cardano, whose profile the table lists with
  \<open>1.2M\<close>, and a coin whose profile the table does not list; and a random source
  whose every draw is 0.1.
\<close>

definition cardanoCoin :: Coin where
  "cardanoCoin = \<lparr>rank = 8, symbol = ''ADA'', twitter_handle = Some ''Cardano'',
                   twitter_url = Some ''https://x.com/Cardano'', market_cap = Some 47000000000,
                   price = 132 / 100, name = ''Cardano''\<rparr>"

definition unlistedCoin :: Coin where
  "unlistedCoin = \<lparr>rank = 11, symbol = ''TON'', twitter_handle = Some ''ton_blockchain'',
                    twitter_url = Some ''https://x.com/ton_blockchain'', market_cap = Some 60000000000,
                    price = 5, name = ''Toncoin''\<rparr>"

definition steadyEnv :: env where
  "steadyEnv = \<lparr>random = (\<lambda>k. 1 / 10), clock = (\<lambda>k. ''2024-03-06T00:00:00.000Z'')\<rparr>"

text \<open>A coin has a profile to visit when its URL and its handle are both truthy.\<close>

definition hasTwitter :: "'a Coin_scheme \<Rightarrow> bool" where
  "hasTwitter coin = (truthyStr (twitter_url coin) \<and> truthyStr (twitter_handle coin))"

definition urlOf :: "'a Coin_scheme \<Rightarrow> string" where
  "urlOf coin = (case twitter_url coin of Some u \<Rightarrow> u | None \<Rightarrow> [])"

text \<open>A JSON member that is a number or \<open>null\<close>.\<close>

fun numberOrNull :: "json option \<Rightarrow> bool" where
  "numberOrNull (Some (JNum x)) = True"
| "numberOrNull (Some JNull) = True"
| "numberOrNull v = False"

section \<open>What the tasks of a run carry\<close>

text \<open>
  The rows the follower route makes of the listing, as JSON: what a run posts to the
  store.
\<close>

definition committedRows :: "env \<Rightarrow> json list" where
  "committedRows eT =
     map toJSON (scrapedData (scrapeLoop actualTwitterFollowers eT (snd (scrapeCoins coinGeckoData))))"

text \<open>
  A task carries the listing when the value its continuation has captured is the one a
  run computes: the listing's response, the request made of it, or the rows made of it.
\<close>

fun carriesListing :: "env \<Rightarrow> env \<Rightarrow> task \<Rightarrow> bool" where
  "carriesListing eL eT (Timer3000 r) = (r = snd (scrape_coingecko_POST eL))"
| "carriesListing eL eT (TwitterRequest b) =
     (b = \<lparr>cryptoData = Some (snd (scrapeCoins coinGeckoData)),
           twitterUrls = Some (fst (scrapeCoins coinGeckoData))\<rparr>)"
| "carriesListing eL eT (StoreRequest d) = (d = Some (JArr (committedRows eT)))"
| "carriesListing eL eT t = True"

text \<open>
  The tasks after which the 5000 ms timer is still to fire: the listing request and the
  timer itself.
\<close>

fun holdsButton :: "task \<Rightarrow> bool" where
  "holdsButton ListingRequest = True"
| "holdsButton Timer5000 = True"
| "holdsButton t = False"

section \<open>Properties of double arithmetic\<close>

lemma bits_0: "bits 0 = 0"
  by (simp add: bits.simps)

lemma bits_1: "bits (Suc 0) = Suc 0"
  by (simp add: bits.simps)

lemma bits_numeral: "bits (numeral k) = Suc (bits (numeral k div 2))"
  by (simp add: bits.simps [of "numeral k"])

lemma floor_rat_numeral: "\<lfloor>numeral a / numeral b :: rat\<rfloor> = numeral a div numeral b"
  using floor_divide_of_int_eq [of "numeral a" "numeral b", where ?'a = rat] by simp

lemma ceiling_rat_numeral: "\<lceil>numeral a / numeral b :: rat\<rceil> = - (- numeral a div numeral b)"
  by (metis ceiling_def floor_divide_of_int_eq minus_divide_left of_int_minus of_int_numeral)

lemmas double_eval = toDouble_def ilog2_def pow2_def roundHalfEven_def Let_def bits_0 bits_1
  bits_numeral floor_rat_numeral ceiling_rat_numeral

lemma bits_le: "n < 2 ^ k \<Longrightarrow> bits n \<le> k"
proof (induction k arbitrary: n)
  case 0
  then show ?case by (simp add: bits.simps)
next
  case (Suc k)
  show ?case
  proof (cases "n = 0")
    case True
    then show ?thesis by (simp add: bits.simps)
  next
    case False
    from Suc.prems have "n div 2 < 2 ^ k" by simp
    from Suc.IH [OF this] False show ?thesis
      by (simp add: bits.simps [of n])
  qed
qed

lemma bits_positive: "n \<noteq> 0 \<Longrightarrow> 1 \<le> bits n"
  by (simp add: bits.simps [of n])

lemma roundHalfEven_of_int: "roundHalfEven (of_int k) = k"
  by (simp add: roundHalfEven_def)

lemma pow2_nonpos: "e \<le> 0 \<Longrightarrow> pow2 e = 1 / 2 ^ nat (- e)"
  by (cases "e = 0") (simp_all add: pow2_def)

text \<open>A natural number below \<open>2 ^ 53\<close> is a double.\<close>

lemma toDouble_of_nat:
  assumes "n < 2 ^ 53"
  shows "toDouble (of_nat n) = Finite (of_nat n)"
proof (cases "n = 0")
  case True
  then show ?thesis by (simp add: toDouble_def)
next
  case False
  define b where "b = bits n"
  have b: "1 \<le> b" "b \<le> 53"
    using bits_positive [OF False] bits_le [OF assms] by (simp_all add: b_def)
  define k where "k = 53 - b"
  have one: "(1::rat) \<le> of_nat n" using False by simp
  have "ilog2 (of_nat n) = int b - 1"
    using one by (simp add: ilog2_def b_def)
  then have e: "max (ilog2 (of_nat n) - 52) (- 1074) = - int k"
    using b by (simp add: k_def)
  have p: "pow2 (- int k) = 1 / 2 ^ k"
    using pow2_nonpos [of "- int k"] by simp
  have "(of_nat n :: rat) / pow2 (- int k) = of_int (int n * 2 ^ k)"
    by (simp add: p)
  then have m: "roundHalfEven ((of_nat n :: rat) / pow2 (- int k)) = int n * 2 ^ k"
    by (simp only: roundHalfEven_of_int)
  have r: "of_int (int n * 2 ^ k) * pow2 (- int k) = (of_nat n :: rat)"
    by (simp add: p)
  have "(of_nat n :: rat) < 2 ^ 53"
    using assms by (metis of_nat_less_iff of_nat_numeral of_nat_power)
  also have "\<dots> \<le> 2 ^ 1024" by simp
  finally have small: "\<not> (2 ^ 1024 \<le> (of_nat n :: rat))" by simp
  show ?thesis
    using False small
    by (simp add: toDouble_def Let_def e m r del: of_int_mult of_int_power)
qed

lemma multiply_of_nat:
  assumes "i * j < 2 ^ 53"
  shows "multiply (Finite (of_nat i)) (Finite (of_nat j)) = Finite (of_nat (i * j))"
  using toDouble_of_nat [OF assms] by simp

section \<open>Properties of the follower-count notation\<close>

lemma showNat_small: "n < 10 \<Longrightarrow> showNat n = [digitChar n]"
  by (simp add: showNat.simps [of n])
lemma showNat_large: "\<not> n < 10 \<Longrightarrow> showNat n = showNat (n div 10) @ [digitChar (n mod 10)]"
  by (simp add: showNat.simps [of n])
lemmas showNat_eval = showNat_small showNat_large digitChar_def
lemma digit_cases: "d < 10 \<Longrightarrow> d \<in> {0, 1, 2, 3, 4, 5, 6, 7, 8, 9::nat}"
  by auto

lemma isDigit_digitChar: "d < 10 \<Longrightarrow> isDigit (digitChar d)"
  using digit_cases [of d] by (auto simp: isDigit_def digitChar_def)

lemma digitVal_digitChar: "d < 10 \<Longrightarrow> digitVal (digitChar d) = d"
  using digit_cases [of d] by (auto simp: digitVal_def digitChar_def)

lemma isDigit_showNat: "c \<in> set (showNat n) \<Longrightarrow> isDigit c"
proof (induction n arbitrary: c rule: showNat.induct)
  case (1 n)
  show ?case
  proof (cases "n < 10")
    case True
    with "1.prems" show ?thesis
      by (simp add: showNat.simps [of n] isDigit_digitChar)
  next
    case False
    with "1.prems" "1.IH" show ?thesis
      by (auto simp: showNat.simps [of n] isDigit_digitChar)
  qed
qed

lemma showNat_nonempty: "showNat n \<noteq> []"
  by (simp add: showNat.simps [of n])

lemma digitsVal_snoc: "digitsVal (ds @ [c]) = 10 * digitsVal ds + digitVal c"
  by (simp add: digitsVal_def)

lemma digitsVal_append: "digitsVal (xs @ ys) = digitsVal xs * 10 ^ length ys + digitsVal ys"
proof (induction ys rule: rev_induct)
  case Nil
  show ?case by (simp add: digitsVal_def)
next
  case (snoc y ys)
  have "digitsVal (xs @ ys @ [y]) = 10 * digitsVal (xs @ ys) + digitVal y"
    using digitsVal_snoc [of "xs @ ys" y] by simp
  with snoc show ?case
    by (simp add: digitsVal_snoc algebra_simps)
qed

lemma digitsVal_showNat: "digitsVal (showNat n) = n"
proof (induction n rule: showNat.induct)
  case (1 n)
  show ?case
  proof (cases "n < 10")
    case True
    then show ?thesis
      by (simp add: showNat.simps [of n] digitsVal_def digitVal_digitChar)
  next
    case False
    with "1.IH" show ?thesis
      by (simp add: showNat.simps [of n] digitsVal_snoc digitVal_digitChar)
  qed
qed

lemma isDigit_not_special:
  "isDigit c \<Longrightarrow> \<not> isWhiteSpace c \<and> c \<noteq> CHR ''-'' \<and> c \<noteq> CHR ''+'' \<and> c \<noteq> CHR ''I''
     \<and> c \<noteq> CHR '','' \<and> c \<noteq> CHR ''.'' \<and> c \<noteq> CHR ''M'' \<and> c \<noteq> CHR ''m''
     \<and> c \<noteq> CHR ''K'' \<and> c \<noteq> CHR ''k'' \<and> c \<noteq> CHR ''B'' \<and> c \<noteq> CHR ''b''"
  by (auto simp: isDigit_def isWhiteSpace_def)

lemma takeWhile_digits:
  "\<forall>c\<in>set ds. isDigit c \<Longrightarrow> (case rest of [] \<Rightarrow> True | c # r \<Rightarrow> \<not> isDigit c)
   \<Longrightarrow> takeWhile isDigit (ds @ rest) = ds \<and> dropWhile isDigit (ds @ rest) = rest"
  by (cases rest) simp_all

lemma exponentPart_ends: "endsLiteral rest \<Longrightarrow> exponentPart rest = 0"
  by (cases rest) (simp_all add: endsLiteral_def exponentPart_def)

lemma parseFloat_head:
  assumes "ip \<noteq> []" and "\<forall>c\<in>set ip. isDigit c"
  shows "dropWhile isWhiteSpace (ip @ rest) = ip @ rest"
    and "\<not> prefix ''Infinity'' (ip @ rest)"
    and "(case ip @ rest of c # r \<Rightarrow> c = CHR ''-'' | [] \<Rightarrow> False) = False"
    and "(case ip @ rest of c # r \<Rightarrow> if c = CHR ''-'' \<or> c = CHR ''+'' then r else ip @ rest | [] \<Rightarrow> ip @ rest) = ip @ rest"
  using assms by (cases ip; auto dest: isDigit_not_special)+

lemma parseFloat_integer:
  assumes ip: "ip \<noteq> []" "\<forall>c\<in>set ip. isDigit c"
    and rest: "endsLiteral rest" "(case rest of [] \<Rightarrow> True | c # r \<Rightarrow> c \<noteq> CHR ''.'')"
  shows "parseFloat (ip @ rest) = toDouble (of_nat (digitsVal ip))"
proof -
  have nd: "(case rest of [] \<Rightarrow> True | c # r \<Rightarrow> \<not> isDigit c)"
    using rest(1) by (cases rest) (simp_all add: endsLiteral_def)
  have tk: "takeWhile isDigit (ip @ rest) = ip" "dropWhile isDigit (ip @ rest) = rest"
    using takeWhile_digits [OF ip(2) nd] by simp_all
  have fp: "(case rest of c # r \<Rightarrow> if c = CHR ''.'' then takeWhile isDigit r else [] | [] \<Rightarrow> []) = []"
    using rest(2) by (cases rest) simp_all
  have r2: "(case rest of c # r \<Rightarrow> if c = CHR ''.'' then dropWhile isDigit r else rest | [] \<Rightarrow> rest) = rest"
    using rest(2) by (cases rest) simp_all
  show ?thesis
    using ip(1)
    by (simp add: parseFloat_def Let_def parseFloat_head [OF ip] tk fp r2
          exponentPart_ends [OF rest(1)] scale10_def)
qed

lemma parseFloat_decimal:
  assumes ip: "ip \<noteq> []" "\<forall>c\<in>set ip. isDigit c"
    and fp: "\<forall>c\<in>set fp. isDigit c"
    and rest: "endsLiteral rest"
  shows "parseFloat (ip @ CHR ''.'' # fp @ rest) = toDouble (of_nat (digitsVal (ip @ fp)) / 10 ^ length fp)"
proof -
  have nd: "(case rest of [] \<Rightarrow> True | c # r \<Rightarrow> \<not> isDigit c)"
    using rest by (cases rest) (simp_all add: endsLiteral_def)
  have nd1: "(case CHR ''.'' # fp @ rest of [] \<Rightarrow> True | c # r \<Rightarrow> \<not> isDigit c)"
    by (simp add: isDigit_def)
  have tk: "takeWhile isDigit (ip @ CHR ''.'' # fp @ rest) = ip"
      "dropWhile isDigit (ip @ CHR ''.'' # fp @ rest) = CHR ''.'' # fp @ rest"
    using takeWhile_digits [OF ip(2) nd1] by simp_all
  have tk2: "takeWhile isDigit (fp @ rest) = fp" "dropWhile isDigit (fp @ rest) = rest"
    using takeWhile_digits [OF fp nd] by simp_all
  show ?thesis
    using ip(1)
    by (simp add: parseFloat_def Let_def parseFloat_head [OF ip] tk tk2
          exponentPart_ends [OF rest] scale10_def)
qed

lemma digits_filter_commas:
  "\<forall>c\<in>set ds. isDigit c \<Longrightarrow> filter (\<lambda>c. c \<noteq> CHR '','') ds = ds"
  by (induction ds) (auto dest: isDigit_not_special)

lemma digits_no_suffix:
  assumes "\<forall>c\<in>set ds. isDigit c"
  shows "CHR ''M'' \<notin> set ds" "CHR ''m'' \<notin> set ds" "CHR ''K'' \<notin> set ds" "CHR ''k'' \<notin> set ds"
  using assms isDigit_not_special by blast+

lemma filter_commas_no_suffix:
  assumes "\<forall>c\<in>set s. isDigit c \<or> c = CHR '',''"
  shows "CHR ''M'' \<notin> set s" "CHR ''m'' \<notin> set s" "CHR ''K'' \<notin> set s" "CHR ''k'' \<notin> set s"
  using assms isDigit_not_special by fastforce+

lemma showNat_eq_zero: "showNat n = ''0'' \<Longrightarrow> n = 0"
  using digitsVal_showNat [of n] by (simp add: digitsVal_def digitVal_def)

lemma parseFloat_showNat: "parseFloat (showNat n) = toDouble (of_nat n)"
  using parseFloat_integer [of "showNat n" "[]"]
  by (simp add: showNat_nonempty isDigit_showNat endsLiteral_def digitsVal_showNat)

lemma parseFollowers_grouped:
  assumes s: "\<forall>c\<in>set s. isDigit c \<or> c = CHR '',''"
    and n: "filter (\<lambda>c. c \<noteq> CHR '','') s = showNat n"
  shows "parseFollowers s = toDouble (of_nat n)"
proof (cases "s = ''0''")
  case True
  with n have "showNat n = ''0''" by simp
  then have "n = 0" by (rule showNat_eq_zero)
  with True show ?thesis by (simp add: parseFollowers_def toDouble_def)
next
  case False
  have "s \<noteq> []" using n showNat_nonempty [of n] by auto
  with False show ?thesis
    by (simp add: parseFollowers_def filter_commas_no_suffix [OF s] n parseFloat_showNat)
qed

lemma parseFollowers_plain: "parseFollowers (showNat n) = toDouble (of_nat n)"
  by (rule parseFollowers_grouped) (simp_all add: isDigit_showNat digits_filter_commas)

lemma suffix_endsLiteral: "c \<in> set ''KkMmBb'' \<Longrightarrow> endsLiteral [c] \<and> c \<noteq> CHR ''.'' \<and> c \<noteq> CHR '',''"
  by (auto simp: endsLiteral_def isDigit_def)

lemma parseFloat_suffix_integer:
  assumes c: "c \<in> set ''KkMmBb''"
  shows "parseFloat (showNat i @ [c]) = toDouble (of_nat i)"
proof -
  have "endsLiteral [c]" "case [c] of [] \<Rightarrow> True | c # r \<Rightarrow> c \<noteq> CHR ''.''"
    using suffix_endsLiteral [OF c] by simp_all
  from parseFloat_integer [OF showNat_nonempty _ this, of i]
  show ?thesis by (simp add: isDigit_showNat digitsVal_showNat)
qed

lemma parseFloat_suffix_decimal:
  assumes fs: "\<forall>c\<in>set fs. isDigit c" and c: "c \<in> set ''KkMmBb''"
  shows "parseFloat (showNat i @ CHR ''.'' # fs @ [c]) = toDouble (decimalValue i fs)"
proof -
  have "endsLiteral [c]"
    using suffix_endsLiteral [OF c] by simp
  from parseFloat_decimal [OF showNat_nonempty _ fs this, of i]
  show ?thesis
    by (simp add: isDigit_showNat digitsVal_append digitsVal_showNat decimalValue_def
          add_divide_distrib)
qed

lemma parseFollowers_suffix_integer:
  assumes c: "c \<in> set ''KkMmBb''"
  shows "parseFollowers (showNat i @ [c]) =
           (if c = CHR ''M'' \<or> c = CHR ''m'' then multiply (toDouble (of_nat i)) (Finite 1000000)
            else if c = CHR ''K'' \<or> c = CHR ''k'' then multiply (toDouble (of_nat i)) (Finite 1000)
            else toDouble (of_nat i))"
proof -
  have dg: "\<forall>c\<in>set (showNat i). isDigit c" by (simp add: isDigit_showNat)
  have flt: "filter (\<lambda>c. c \<noteq> CHR '','') (showNat i @ [c]) = showNat i @ [c]"
    using suffix_endsLiteral [OF c] by (simp add: digits_filter_commas [OF dg])
  show ?thesis
    unfolding parseFollowers_def Let_def flt parseFloat_suffix_integer [OF c]
    using digits_no_suffix [OF dg] by (simp add: showNat_nonempty)
qed

lemma parseFollowers_suffix_decimal:
  assumes fs: "\<forall>c\<in>set fs. isDigit c" and c: "c \<in> set ''KkMmBb''"
  shows "parseFollowers (showNat i @ CHR ''.'' # fs @ [c]) =
           (if c = CHR ''M'' \<or> c = CHR ''m'' then multiply (toDouble (decimalValue i fs)) (Finite 1000000)
            else if c = CHR ''K'' \<or> c = CHR ''k'' then multiply (toDouble (decimalValue i fs)) (Finite 1000)
            else toDouble (decimalValue i fs))"
proof -
  let ?s = "showNat i @ CHR ''.'' # fs @ [c]"
  have dg: "\<forall>c\<in>set (showNat i). isDigit c" by (simp add: isDigit_showNat)
  have flt: "filter (\<lambda>c. c \<noteq> CHR '','') ?s = ?s"
    using suffix_endsLiteral [OF c]
    by (simp add: digits_filter_commas [OF dg] digits_filter_commas [OF fs])
  show ?thesis
    unfolding parseFollowers_def Let_def flt parseFloat_suffix_decimal [OF fs c]
    using digits_no_suffix [OF dg] digits_no_suffix [OF fs] by (simp add: showNat_nonempty)
qed

lemma scaled_integer:
  assumes "i * j < 2 ^ 53" and "0 < j"
  shows "multiply (toDouble (of_nat i)) (Finite (of_nat j)) = Finite (of_nat (i * j))"
proof -
  have "i \<le> i * j" using assms(2) by (cases j) simp_all
  from this assms(1) have "i < 2 ^ 53" by (rule le_less_trans)
  then show ?thesis
    using multiply_of_nat [OF assms(1)] by (simp only: toDouble_of_nat)
qed

lemmas parse_eval = parseFollowers_def parseFloat_def isDigit_def isWhiteSpace_def digitsVal_def
  digitVal_def exponentPart_def scale10_def signedInteger_def

lemma showNat_12345: "showNat 12345 = ''12345''"
  by (simp add: showNat_eval)

lemma showNat_3: "showNat 3 = ''3''"
  by (simp add: showNat_eval)

lemma parse_12M: "parseFollowers ''1.2M'' = Finite 1200000"
  by (simp add: parse_eval double_eval)

lemma parse_850K: "parseFollowers ''850K'' = Finite 850000"
  by (simp add: parse_eval double_eval)

lemma parse_12345: "parseFollowers ''12,345'' = Finite 12345"
  by (simp add: parse_eval double_eval)

lemma parse_41M: "parseFollowers ''4.1M'' = Finite (8804682956799999 / 2147483648)"
  by (simp add: parse_eval double_eval)

lemma parse_25M: "parseFollowers ''2.5M'' = Finite 2500000"
  by (simp add: parse_eval double_eval)

text \<open>
  Claim C1, as the code has it. \<open>parseFollowers\<close> reads a plain or comma-grouped integer as
  the double nearest to it, which is the integer itself below \<open>2 ^ 53\<close>. A number
  followed by \<open>K\<close> or \<open>k\<close> is read as the nearest double and multiplied by 1,000, one
  followed by \<open>M\<close> or \<open>m\<close> by 1,000,000, in double arithmetic; the product is exact for
  an integer whose product stays below \<open>2 ^ 53\<close>. A suffix \<open>B\<close> or \<open>b\<close> scales nothing:
  the number before it is returned. In particular \<open>"1.2M"\<close> gives 1,200,000, \<open>"850K"\<close>
  gives 850,000 and \<open>"12,345"\<close> gives 12,345, while \<open>"4.1M"\<close> gives the double
  4099999.9999999995.
\<close>

theorem parseFollowers_scales_K_and_M_only:
  "parseFollowers (showNat n) = toDouble (of_nat n)
   \<and> ((\<forall>c\<in>set s. isDigit c \<or> c = CHR '','') \<and> filter (\<lambda>c. c \<noteq> CHR '','') s = showNat n
        \<longrightarrow> parseFollowers s = toDouble (of_nat n))
   \<and> (n < 2 ^ 53 \<longrightarrow> toDouble (of_nat n) = Finite (of_nat n))
   \<and> (c \<in> {CHR ''K'', CHR ''k''} \<longrightarrow>
        (i * 1000 < 2 ^ 53 \<longrightarrow> parseFollowers (showNat i @ [c]) = Finite (of_nat (i * 1000)))
        \<and> ((\<forall>c\<in>set fs. isDigit c) \<longrightarrow>
             parseFollowers (showNat i @ ''.'' @ fs @ [c]) =
               multiply (toDouble (decimalValue i fs)) (Finite 1000)))
   \<and> (c \<in> {CHR ''M'', CHR ''m''} \<longrightarrow>
        (i * 1000000 < 2 ^ 53 \<longrightarrow> parseFollowers (showNat i @ [c]) = Finite (of_nat (i * 1000000)))
        \<and> ((\<forall>c\<in>set fs. isDigit c) \<longrightarrow>
             parseFollowers (showNat i @ ''.'' @ fs @ [c]) =
               multiply (toDouble (decimalValue i fs)) (Finite 1000000)))
   \<and> (c \<in> {CHR ''B'', CHR ''b''} \<longrightarrow>
        parseFollowers (showNat i @ [c]) = toDouble (of_nat i)
        \<and> ((\<forall>c\<in>set fs. isDigit c) \<longrightarrow>
             parseFollowers (showNat i @ ''.'' @ fs @ [c]) = toDouble (decimalValue i fs)))
   \<and> parseFollowers ''1.2M'' = Finite 1200000
   \<and> parseFollowers ''850K'' = Finite 850000
   \<and> parseFollowers ''12,345'' = Finite 12345
   \<and> parseFollowers ''4.1M'' = Finite (8804682956799999 / 2147483648)"
proof (intro conjI impI)
  show "parseFollowers (showNat n) = toDouble (of_nat n)" by (rule parseFollowers_plain)
next
  assume "(\<forall>c\<in>set s. isDigit c \<or> c = CHR '','') \<and> filter (\<lambda>c. c \<noteq> CHR '','') s = showNat n"
  then show "parseFollowers s = toDouble (of_nat n)" by (simp add: parseFollowers_grouped)
next
  assume "n < 2 ^ 53"
  then show "toDouble (of_nat n) = Finite (of_nat n)" by (rule toDouble_of_nat)
next
  assume c: "c \<in> {CHR ''K'', CHR ''k''}" and i: "i * 1000 < 2 ^ 53"
  from c have "parseFollowers (showNat i @ [c]) = multiply (toDouble (of_nat i)) (Finite (of_nat 1000))"
    using parseFollowers_suffix_integer [of c i] by auto
  also have "\<dots> = Finite (of_nat (i * 1000))"
    using i by (intro scaled_integer) simp_all
  finally show "parseFollowers (showNat i @ [c]) = Finite (of_nat (i * 1000))" .
next
  assume "c \<in> {CHR ''K'', CHR ''k''}" "\<forall>c\<in>set fs. isDigit c"
  then show "parseFollowers (showNat i @ ''.'' @ fs @ [c]) =
      multiply (toDouble (decimalValue i fs)) (Finite 1000)"
    using parseFollowers_suffix_decimal [of fs c i] by auto
next
  assume c: "c \<in> {CHR ''M'', CHR ''m''}" and i: "i * 1000000 < 2 ^ 53"
  from c have "parseFollowers (showNat i @ [c]) = multiply (toDouble (of_nat i)) (Finite (of_nat 1000000))"
    using parseFollowers_suffix_integer [of c i] by auto
  also have "\<dots> = Finite (of_nat (i * 1000000))"
    using i by (intro scaled_integer) simp_all
  finally show "parseFollowers (showNat i @ [c]) = Finite (of_nat (i * 1000000))" .
next
  assume "c \<in> {CHR ''M'', CHR ''m''}" "\<forall>c\<in>set fs. isDigit c"
  then show "parseFollowers (showNat i @ ''.'' @ fs @ [c]) =
      multiply (toDouble (decimalValue i fs)) (Finite 1000000)"
    using parseFollowers_suffix_decimal [of fs c i] by auto
next
  assume "c \<in> {CHR ''B'', CHR ''b''}"
  then show "parseFollowers (showNat i @ [c]) = toDouble (of_nat i)"
    using parseFollowers_suffix_integer [of c i] by auto
next
  assume "c \<in> {CHR ''B'', CHR ''b''}" "\<forall>c\<in>set fs. isDigit c"
  then show "parseFollowers (showNat i @ ''.'' @ fs @ [c]) = toDouble (decimalValue i fs)"
    using parseFollowers_suffix_decimal [of fs c i] by auto
next
  show "parseFollowers ''1.2M'' = Finite 1200000" by (rule parse_12M)
next
  show "parseFollowers ''850K'' = Finite 850000" by (rule parse_850K)
next
  show "parseFollowers ''12,345'' = Finite 12345" by (rule parse_12345)
next
  show "parseFollowers ''4.1M'' = Finite (8804682956799999 / 2147483648)" by (rule parse_41M)
qed

lemma double_13_4: "toDouble (13 / 4) = Finite (13 / 4)"
  by (simp add: double_eval)

lemma scaled_13_4:
  "toDouble 3250 = Finite 3250"
  "toDouble 3250000 = Finite 3250000"
  "toDouble 3 = Finite 3"
  by (simp_all add: double_eval)

text \<open>
  The theorem at \<open>"12,345"\<close>, \<open>"3K"\<close>, \<open>"3.25K"\<close>, \<open>"3.25m"\<close>, \<open>"3.25B"\<close> and \<open>"3b"\<close>.
\<close>

theorem parseFollowers_scales_K_and_M_only_witness:
  "list_all (\<lambda>c. isDigit c \<or> c = CHR '','') ''12,345''
   \<and> filter (\<lambda>c. c \<noteq> CHR '','') ''12,345'' = showNat 12345
   \<and> (12345 :: nat) < 2 ^ 53
   \<and> parseFollowers ''12,345'' = Finite 12345
   \<and> (3 :: nat) * 1000 < 2 ^ 53
   \<and> parseFollowers ''3K'' = Finite 3000
   \<and> list_all isDigit ''25''
   \<and> parseFollowers ''3.25K'' = Finite 3250
   \<and> parseFollowers ''3.25m'' = Finite 3250000
   \<and> parseFollowers ''3.25B'' = Finite (13 / 4)
   \<and> parseFollowers ''3b'' = Finite 3"
proof -
  have grouped: "(\<forall>c\<in>set ''12,345''. isDigit c \<or> c = CHR '','')
      \<and> filter (\<lambda>c. c \<noteq> CHR '','') ''12,345'' = showNat 12345"
    by (simp add: showNat_12345 isDigit_def)
  have digits: "\<forall>c\<in>set ''25''. isDigit c"
    by (simp add: isDigit_def)
  have dv: "decimalValue 3 ''25'' = 13 / 4"
    by (simp add: decimalValue_def digitsVal_def digitVal_def)
  note inst = parseFollowers_scales_K_and_M_only
    [where n = 12345 and s = "''12,345''" and fs = "''25''" and i = 3]
  from inst [where c = "CHR ''K''"] grouped
  have a: "parseFollowers ''12,345'' = Finite 12345"
    by simp
  from inst [where c = "CHR ''K''"] digits
  have b: "parseFollowers ''3K'' = Finite 3000" "parseFollowers ''3.25K'' = Finite 3250"
    by (simp_all add: showNat_3 dv double_13_4 scaled_13_4)
  from inst [where c = "CHR ''m''"] digits
  have c: "parseFollowers ''3.25m'' = Finite 3250000"
    by (simp add: showNat_3 dv double_13_4 scaled_13_4)
  from inst [where c = "CHR ''B''"] digits
  have d: "parseFollowers ''3.25B'' = Finite (13 / 4)"
    by (simp add: showNat_3 dv double_13_4)
  from inst [where c = "CHR ''b''"]
  have e: "parseFollowers ''3b'' = Finite 3"
    by (simp add: showNat_3 scaled_13_4)
  from a b c d e show ?thesis
    by (simp add: showNat_12345 isDigit_def)
qed

text \<open>
  Claim C1 as the specification states it fails for the suffix \<open>B\<close>: \<open>"1.5B"\<close> is
  normalized to 1.5, not to 1,500,000,000.
\<close>

theorem parseFollowers_B_unscaled:
  "parseFollowers ''1.5B'' = Finite (3 / 2) \<and> parseFollowers ''1.5B'' \<noteq> Finite (3 / 2 * 1000000000)"
  by (simp add: parse_eval double_eval)

section \<open>Properties of the result store\<close>

lemma followers_POST_store:
  "snd (followers_POST request st) = (case wellFormed request of Some xs \<Rightarrow> xs | None \<Rightarrow> st)"
proof (cases request)
  case (Inl e)
  then show ?thesis by (simp add: followers_POST_def)
next
  case (Inr b)
  show ?thesis
  proof (cases b)
    case (JObj kvs)
    show ?thesis
    proof (cases "map_of (rev kvs) ''data''")
      case None
      with Inr JObj show ?thesis by (simp add: followers_POST_def)
    next
      case (Some d)
      with Inr JObj show ?thesis
        by (cases d) (simp_all add: followers_POST_def)
    qed
  qed (simp_all add: Inr followers_POST_def)
qed


lemma storeAfter_snoc:
  "storeAfter (posts @ [request]) = snd (followers_POST request (storeAfter posts))"
  by (simp add: storeAfter_def)

lemma committed_snoc:
  "committed (posts @ [request]) =
     (case wellFormed request of None \<Rightarrow> committed posts | Some xs \<Rightarrow> committed posts @ [xs])"
  by (simp add: committed_def map_filter_def split: option.splits)

lemma storeAfter_committed:
  "storeAfter posts = (if committed posts = [] then [] else last (committed posts))"
proof (induction posts rule: rev_induct)
  case Nil
  show ?case by (simp add: storeAfter_def initialStore_def committed_def map_filter_def)
next
  case (snoc request posts)
  then show ?case
    by (simp add: storeAfter_snoc committed_snoc followers_POST_store split: option.splits)
qed

text \<open>
  Claim C5, as the code has it. After any sequence of \<open>POST\<close> requests, a \<open>GET\<close> returns
  the sample rows if no dataset has been committed or the dataset committed last is
  empty, and otherwise the dataset committed last, unchanged.
\<close>

theorem get_returns_last_nonempty_commit:
  "body (followers_GET loaded (storeAfter posts)) =
     JArr (if committed posts = [] \<or> last (committed posts) = []
           then map toJSON (sampleData loaded)
           else last (committed posts))"
  by (simp add: storeAfter_committed followers_GET_def json_response_def)

text \<open>
  Claim C5 as the specification states it fails once an empty dataset is committed:
  the dataset committed last is \<open>[]\<close>, and \<open>GET\<close> returns the sample rows instead.
\<close>

theorem get_after_empty_commit_is_not_the_commit:
  "committed [Inr (JObj [(''data'', JArr [])])] = [[]]
   \<and> body (followers_GET ''2024-03-06T00:00:00.000Z'' (storeAfter [Inr (JObj [(''data'', JArr [])])]))
       \<noteq> JArr []"
  by (simp add: committed_def map_filter_def storeAfter_def initialStore_def followers_POST_def
        followers_GET_def json_response_def sampleData_def)





text \<open>
  Claim C10. A \<open>POST\<close> of the empty array succeeds with \<open>count\<close> 0 and leaves the store
  empty, whatever it held; a \<open>GET\<close> on the empty store returns the sample rows; and a
  \<open>GET\<close> looks at nothing but whether the stored rows are empty when it is served.
\<close>

theorem empty_commit_restores_sample:
  "followers_POST (Inr (JObj [(''data'', JArr [])])) st =
     (json_response (JObj [(''success'', JBool True),
                           (''message'', JStr ''Data stored successfully''),
                           (''count'', JNum 0)]), [])
   \<and> followers_GET loaded (snd (followers_POST (Inr (JObj [(''data'', JArr [])])) st)) =
       json_response (JArr (map toJSON (sampleData loaded)))
   \<and> followers_GET loaded st' =
       json_response (JArr (if st' = [] then map toJSON (sampleData loaded) else st'))"
  by (simp add: followers_POST_def followers_GET_def)

section \<open>Properties of the follower stage\<close>

lemma scrapeLoop_snoc:
  "scrapeLoop tbl e (coins @ [coin]) = processCoin tbl e (scrapeLoop tbl e coins) coin"
  by (simp add: scrapeLoop_def)

lemma scrapeLoop_Nil: "scrapeLoop tbl e [] = initialScrape"
  by (simp add: scrapeLoop_def)

lemma processCoin_pushes_one:
  "\<exists>row. scrapedData (processCoin tbl e st coin) = scrapedData st @ [row]
         \<and> rank row = rank coin \<and> coin_name row = name coin"
  by (simp add: processCoin_def scrapedRow_def Let_def)



lemma length_scrapeLoop: "length (scrapedData (scrapeLoop tbl e coins)) = length coins"
proof (induction coins rule: rev_induct)
  case Nil
  show ?case by (simp add: scrapeLoop_Nil initialScrape_def)
next
  case (snoc coin coins)
  obtain row where "scrapedData (processCoin tbl e (scrapeLoop tbl e coins) coin) =
      scrapedData (scrapeLoop tbl e coins) @ [row]"
    using processCoin_pushes_one by blast
  with snoc show ?case by (simp add: scrapeLoop_snoc)
qed


lemma ranks_scrapeLoop: "map rank (scrapedData (scrapeLoop tbl e coins)) = map rank coins"
proof (induction coins rule: rev_induct)
  case Nil
  show ?case by (simp add: scrapeLoop_Nil initialScrape_def)
next
  case (snoc coin coins)
  obtain row where "scrapedData (processCoin tbl e (scrapeLoop tbl e coins) coin) =
      scrapedData (scrapeLoop tbl e coins) @ [row]" "rank row = rank coin"
    using processCoin_pushes_one by blast
  with snoc show ?case by (simp add: scrapeLoop_snoc)
qed

lemma scrapeLoop_prefix:
  "take (length coins) (scrapedData (scrapeLoop tbl e (coins @ others))) =
     scrapedData (scrapeLoop tbl e coins)"
proof (induction others rule: rev_induct)
  case Nil
  show ?case by (simp add: length_scrapeLoop)
next
  case (snoc coin others)
  obtain row where "scrapedData (processCoin tbl e (scrapeLoop tbl e (coins @ others)) coin) =
      scrapedData (scrapeLoop tbl e (coins @ others)) @ [row]"
    using processCoin_pushes_one by blast
  with snoc show ?case
    using scrapeLoop_snoc [of tbl e "coins @ others" coin]
    by (simp add: length_scrapeLoop)
qed

text \<open>The row at position \<open>i\<close> is the one the \<open>i\<close>-th iteration pushes.\<close>

lemma scrapeLoop_nth:
  assumes i: "i < length coins"
  shows "scrapedData (scrapeLoop tbl e coins) ! i =
           last (scrapedData (processCoin tbl e (scrapeLoop tbl e (take i coins)) (coins ! i)))"
proof -
  let ?before = "take i coins"
  have split: "coins = (?before @ [coins ! i]) @ drop (Suc i) coins"
    using i by (simp add: id_take_nth_drop [symmetric])
  have len: "length (?before @ [coins ! i]) = Suc i"
    using i by simp
  obtain row where row: "scrapedData (processCoin tbl e (scrapeLoop tbl e ?before) (coins ! i)) =
      scrapedData (scrapeLoop tbl e ?before) @ [row]"
    using processCoin_pushes_one by blast
  have "scrapedData (scrapeLoop tbl e coins) ! i =
          take (Suc i) (scrapedData (scrapeLoop tbl e coins)) ! i"
    by simp
  also have "take (Suc i) (scrapedData (scrapeLoop tbl e coins)) =
          scrapedData (scrapeLoop tbl e (?before @ [coins ! i]))"
    using scrapeLoop_prefix [of "?before @ [coins ! i]" tbl e "drop (Suc i) coins"] split len
    by simp
  also have "\<dots> = scrapedData (scrapeLoop tbl e ?before) @ [row]"
    by (simp add: scrapeLoop_snoc row)
  finally show ?thesis
    using i by (simp add: nth_append length_scrapeLoop row)
qed



lemma dataRows_processCryptoData:
  "dataRows (processCryptoData tbl e coins) = map toJSON (scrapedData (scrapeLoop tbl e coins))"
  by (simp add: dataRows_def processCryptoData_def json_response_def member_def Let_def)






lemma scrapeLoop_default:
  "scrapeLoop actualTwitterFollowers e defaultCryptoData =
     \<lparr>scrapedData =
        [\<lparr>rank = 1, symbol = ''BTC'', twitter_handle = Some ''bitcoin'',
          twitter_url = Some ''https://x.com/bitcoin'', market_cap = Some 1280000000000,
          price = 6543221 / 100, coin_name = ''Bitcoin'', followers = Text ''5.2M'',
          last_updated = clock e 0\<rparr>,
         \<lparr>rank = 2, symbol = ''ETH'', twitter_handle = Some ''ethereum'',
          twitter_url = Some ''https://x.com/ethereum'', market_cap = Some 425000000000,
          price = 354218 / 100, coin_name = ''Ethereum'', followers = Text ''3.1M'',
          last_updated = clock e 1\<rparr>],
      draws = 0, reads = 2,
      lookedUp = [''https://x.com/bitcoin'', ''https://x.com/ethereum'']\<rparr>"
  by (simp add: scrapeLoop_def defaultCryptoData_def processCoin_def scrapedRow_def
        initialScrape_def truthyStr_def actualTwitterFollowers_def readTable_def Let_def)

lemma member_toJSON:
  "member (toJSON r) ''rank'' = Some (JNum (of_int (rank r)))"
  "member (toJSON r) ''twitter_handle'' = Some (nullable JStr (twitter_handle r))"
  "member (toJSON r) ''coin_name'' = Some (JStr (coin_name r))"
  by (cases "followers r"; simp add: member_def toJSON_def)+

lemma followers_toJSON:
  "followers r = Text s \<Longrightarrow> member (toJSON r) ''followers'' = Some (JStr s)"
  by (simp add: member_def toJSON_def)

lemma followers_never_number: "\<not> numberOrNull (member (toJSON r) ''followers'')"
  by (cases "followers r") (simp_all add: member_def toJSON_def)


lemma last_fallbackFollowers:
  "fallbackFollowers cap r \<noteq> [] \<and> last (fallbackFollowers cap r) \<in> {CHR ''M'', CHR ''K''}"
  by (simp add: fallbackFollowers_def Let_def)







lemma fallback_alpha: "fallbackFollowers (Some 200000000000) (5 / 32) = ''2.5M''"
proof -
  have cap: "toDouble 200000000000 = Finite 200000000000"
    by (simp add: double_eval)
  have draw: "toDouble (5 / 32) = Finite (5 / 32)"
    by (simp add: double_eval)
  have product: "multiply (Finite (5 / 32)) (Finite 3) = Finite (15 / 32)"
    by (simp add: double_eval)
  have sum: "plus (Finite (15 / 32)) (Finite 2) = Finite (79 / 32)"
    by (simp add: double_eval)
  have digits: "fixedDigits (79 / 32) (Suc 0) = ''2.5''"
    by (simp add: fixedDigits_def Let_def floor_rat_numeral showNat_eval)
  show ?thesis
    by (simp add: fallbackFollowers_def Let_def cap draw product sum digits
          del: multiply.simps plus.simps)
qed

lemma readTable_actual:
  "readTable actualTwitterFollowers ''https://x.com/ton_blockchain'' = None"
  "readTable actualTwitterFollowers ''https://x.com/alpha'' = None"
  "readTable actualTwitterFollowers ''https://x.com/Cardano'' = Some (Text ''1.2M'')"
  by (simp_all add: readTable_def actualTwitterFollowers_def objectMembers_def)



lemma processCryptoData_default:
  "processCryptoData actualTwitterFollowers e defaultCryptoData =
      \<lparr>status = 200,
       body = JObj
        [(''success'', JBool True),
         (''scraped'', JNum 2),
         (''data'', JArr
            [toJSON \<lparr>rank = 1, symbol = ''BTC'', twitter_handle = Some ''bitcoin'',
                     twitter_url = Some ''https://x.com/bitcoin'', market_cap = Some 1280000000000,
                     price = 6543221 / 100, coin_name = ''Bitcoin'', followers = Text ''5.2M'',
                     last_updated = clock e 0\<rparr>,
             toJSON \<lparr>rank = 2, symbol = ''ETH'', twitter_handle = Some ''ethereum'',
                     twitter_url = Some ''https://x.com/ethereum'', market_cap = Some 425000000000,
                     price = 354218 / 100, coin_name = ''Ethereum'', followers = Text ''3.1M'',
                     last_updated = clock e 1\<rparr>]),
         (''message'', JStr ''Successfully scraped Twitter follower data using Selenium-like approach''),
         (''method'', JStr ''Chrome browser automation with data-testid selectors''),
         (''timestamp'', JStr (clock e 2))]\<rparr>"
  unfolding processCryptoData_def scrapeLoop_default Let_def
  by (simp add: json_response_def)

text \<open>
  Claim C9. When the body of a request to the follower route has no \<open>twitterUrls\<close> or
  an empty one, the response does not depend on \<open>cryptoData\<close>: it is the response for
  the two default coins, a success with the rows of Bitcoin (\<open>5.2M\<close>) and Ethereum
  (\<open>3.1M\<close>).
\<close>

theorem empty_twitterUrls_processes_default:
  "twitterUrls b = None \<or> twitterUrls b = Some [] \<longrightarrow>
   scrape_twitter_POST actualTwitterFollowers e (Inr (Some b)) =
     processCryptoData actualTwitterFollowers e defaultCryptoData
   \<and> scrape_twitter_POST actualTwitterFollowers e (Inr (Some b)) =
     \<lparr>status = 200,
      body = JObj
        [(''success'', JBool True),
         (''scraped'', JNum 2),
         (''data'', JArr
            [toJSON \<lparr>rank = 1, symbol = ''BTC'', twitter_handle = Some ''bitcoin'',
                     twitter_url = Some ''https://x.com/bitcoin'', market_cap = Some 1280000000000,
                     price = 6543221 / 100, coin_name = ''Bitcoin'', followers = Text ''5.2M'',
                     last_updated = clock e 0\<rparr>,
             toJSON \<lparr>rank = 2, symbol = ''ETH'', twitter_handle = Some ''ethereum'',
                     twitter_url = Some ''https://x.com/ethereum'', market_cap = Some 425000000000,
                     price = 354218 / 100, coin_name = ''Ethereum'', followers = Text ''3.1M'',
                     last_updated = clock e 1\<rparr>]),
         (''message'', JStr ''Successfully scraped Twitter follower data using Selenium-like approach''),
         (''method'', JStr ''Chrome browser automation with data-testid selectors''),
         (''timestamp'', JStr (clock e 2))]\<rparr>"
proof (intro impI)
  assume "twitterUrls b = None \<or> twitterUrls b = Some []"
  then have route: "scrape_twitter_POST actualTwitterFollowers e (Inr (Some b)) =
      processCryptoData actualTwitterFollowers e defaultCryptoData"
    by (auto simp add: scrape_twitter_POST_def Let_def)
  show "scrape_twitter_POST actualTwitterFollowers e (Inr (Some b)) =
     processCryptoData actualTwitterFollowers e defaultCryptoData
   \<and> scrape_twitter_POST actualTwitterFollowers e (Inr (Some b)) =
     \<lparr>status = 200,
      body = JObj
        [(''success'', JBool True),
         (''scraped'', JNum 2),
         (''data'', JArr
            [toJSON \<lparr>rank = 1, symbol = ''BTC'', twitter_handle = Some ''bitcoin'',
                     twitter_url = Some ''https://x.com/bitcoin'', market_cap = Some 1280000000000,
                     price = 6543221 / 100, coin_name = ''Bitcoin'', followers = Text ''5.2M'',
                     last_updated = clock e 0\<rparr>,
             toJSON \<lparr>rank = 2, symbol = ''ETH'', twitter_handle = Some ''ethereum'',
                     twitter_url = Some ''https://x.com/ethereum'', market_cap = Some 425000000000,
                     price = 354218 / 100, coin_name = ''Ethereum'', followers = Text ''3.1M'',
                     last_updated = clock e 1\<rparr>]),
         (''message'', JStr ''Successfully scraped Twitter follower data using Selenium-like approach''),
         (''method'', JStr ''Chrome browser automation with data-testid selectors''),
         (''timestamp'', JStr (clock e 2))]\<rparr>"
    unfolding route using processCryptoData_default [of e] by simp
qed

text \<open>
  The theorem at a body with no \<open>twitterUrls\<close> whose \<open>cryptoData\<close> is Cardano alone,
  and at a body with an empty \<open>twitterUrls\<close> and no \<open>cryptoData\<close>: both responses carry
  the two default rows.
\<close>

theorem empty_twitterUrls_processes_default_witness:
  "twitterUrls \<lparr>cryptoData = Some [cardanoCoin], twitterUrls = None\<rparr> = None
   \<and> column ''coin_name''
         (dataRows (scrape_twitter_POST actualTwitterFollowers steadyEnv
            (Inr (Some \<lparr>cryptoData = Some [cardanoCoin], twitterUrls = None\<rparr>))))
       = [Some (JStr ''Bitcoin''), Some (JStr ''Ethereum'')]
   \<and> twitterUrls \<lparr>cryptoData = (None :: Coin list option), twitterUrls = Some []\<rparr> = Some []
   \<and> column ''coin_name''
         (dataRows (scrape_twitter_POST actualTwitterFollowers steadyEnv
            (Inr (Some \<lparr>cryptoData = (None :: Coin list option), twitterUrls = Some []\<rparr>))))
       = [Some (JStr ''Bitcoin''), Some (JStr ''Ethereum'')]"
proof -
  let ?rows = "[Some (JStr ''Bitcoin''), Some (JStr ''Ethereum'')]"
  have "column ''coin_name'' (dataRows (scrape_twitter_POST actualTwitterFollowers steadyEnv
            (Inr (Some \<lparr>cryptoData = Some [cardanoCoin], twitterUrls = None\<rparr>)))) = ?rows"
    unfolding conjunct2 [OF mp [OF empty_twitterUrls_processes_default
      [where b = "\<lparr>cryptoData = Some [cardanoCoin], twitterUrls = None\<rparr>" and e = steadyEnv]],
      simplified]
    by (simp add: column_def dataRows_def member_def toJSON_def)
  moreover
  have "column ''coin_name'' (dataRows (scrape_twitter_POST actualTwitterFollowers steadyEnv
            (Inr (Some \<lparr>cryptoData = (None :: Coin list option), twitterUrls = Some []\<rparr>)))) = ?rows"
    unfolding conjunct2 [OF mp [OF empty_twitterUrls_processes_default
      [where b = "\<lparr>cryptoData = (None :: Coin list option), twitterUrls = Some []\<rparr>" and e = steadyEnv]],
      simplified]
    by (simp add: column_def dataRows_def member_def toJSON_def)
  ultimately show ?thesis by simp
qed

text \<open>The count that an iteration writes into the row it pushes, case by case.\<close>

lemma processCoin_followers:
  "followers (last (scrapedData (processCoin tbl e st coin))) =
     (if hasTwitter coin then
        (case readTable tbl (urlOf coin) of
           None \<Rightarrow> Text (fallbackFollowers (market_cap coin) (random e (draws st)))
         | Some (Text v) \<Rightarrow>
             if v \<noteq> [] then Text v
             else Text (fallbackFollowers (market_cap coin) (random e (draws st)))
         | Some (Member k) \<Rightarrow> Member k)
      else Text ''No Twitter'')"
  by (simp add: processCoin_def hasTwitter_def urlOf_def scrapedRow_def Let_def
        split: option.splits followers_value.splits)

lemma row_processCryptoData:
  assumes "i < length coins"
  shows "dataRows (processCryptoData tbl e coins) ! i =
           toJSON (last (scrapedData (processCoin tbl e (scrapeLoop tbl e (take i coins)) (coins ! i))))"
  using assms by (simp add: dataRows_processCryptoData length_scrapeLoop scrapeLoop_nth)

lemma scrapeLoop_scenario:
  "scrapedData (scrapeLoop actualTwitterFollowers scenarioEnv [recordA, recordB]) =
     [\<lparr>rank = 1, symbol = ''ALP'', twitter_handle = Some ''alpha'',
       twitter_url = Some ''https://x.com/alpha'', market_cap = Some 200000000000,
       price = 3 / 2, coin_name = ''Alpha'', followers = Text ''2.5M'',
       last_updated = ''2024-03-06T00:00:00.000Z''\<rparr>,
      \<lparr>rank = 2, symbol = ''BET'', twitter_handle = None, twitter_url = None,
       market_cap = Some 1000000000, price = 1 / 2, coin_name = ''Beta'',
       followers = Text ''No Twitter'', last_updated = ''2024-03-06T00:00:00.000Z''\<rparr>]"
  by (simp add: scrapeLoop_def recordA_def recordB_def processCoin_def scrapedRow_def
        initialScrape_def truthyStr_def scenarioEnv_def readTable_actual fallback_alpha Let_def)

lemma rows_scenario:
  "dataRows (scrape_twitter_POST actualTwitterFollowers scenarioEnv scenarioRequest) =
     map toJSON (scrapedData (scrapeLoop actualTwitterFollowers scenarioEnv [recordA, recordB]))"
  by (simp add: scrape_twitter_POST_def scenarioRequest_def Let_def dataRows_processCryptoData)

lemma followers_listing:
  "map followers (scrapedData (scrapeLoop actualTwitterFollowers eT (snd (scrapeCoins coinGeckoData)))) =
     [Text ''5.2M'', Text ''3.1M'', Text ''1.8M'', Text ''2.4M'', Text ''1.9M'', Text ''3.5M'',
      Text ''2.8M'', Text ''1.2M'', Text ''890K'', Text ''1.1M'']"
  by (simp add: scrapeLoop_def scrapeCoins_def coinGeckoData_def entry_def scrapeCoin_def
        processCoin_def scrapedRow_def initialScrape_def truthyStr_def readTable_def
        actualTwitterFollowers_def Let_def)

lemma column_followers:
  "map followers rows = map Text texts \<Longrightarrow>
   column ''followers'' (map toJSON rows) = map (\<lambda>s. Some (JStr s)) texts"
proof (induction rows arbitrary: texts)
  case Nil
  then show ?case by (simp add: column_def)
next
  case (Cons r rows)
  then obtain s others where texts: "texts = s # others" "followers r = Text s"
      "map followers rows = map Text others"
    by (cases texts) auto
  with Cons.IH [of others] show ?case
    by (simp add: column_def followers_toJSON)
qed

text \<open>
  Claim C8, as the code has it. The row that the follower stage makes of a coin never
  carries its follower count as a number or as \<open>null\<close>: the count is the text
  \<open>"No Twitter"\<close> when the coin lacks a URL or a handle, the text of the table when
  the table lists the profile, and a generated text that ends in \<open>M\<close> or \<open>K\<close> when the
  read of the table finds nothing. The sample rows served by the store carry texts, and
  so do the ten rows that a run of the dashboard commits. In the scenario, with the table of the code, the rows are rank 1 with handle
  \<open>alpha\<close> and the generated \<open>"2.5M"\<close>, and rank 2 with handle \<open>null\<close> and
  \<open>"No Twitter"\<close>; the number 2,500,000 is what \<open>parseFollowers\<close> makes of \<open>"2.5M"\<close> on
  the dashboard.
\<close>

theorem rows_carry_follower_text:
  "(i < length coins \<longrightarrow>
      \<not> numberOrNull (member (dataRows (processCryptoData tbl e coins) ! i) ''followers'')
      \<and> (\<not> hasTwitter (coins ! i) \<longrightarrow>
            member (dataRows (processCryptoData tbl e coins) ! i) ''followers'' =
              Some (JStr ''No Twitter''))
      \<and> (hasTwitter (coins ! i) \<and> map_of tbl (urlOf (coins ! i)) = Some v \<and> v \<noteq> [] \<longrightarrow>
            member (dataRows (processCryptoData tbl e coins) ! i) ''followers'' = Some (JStr v))
      \<and> (hasTwitter (coins ! i) \<and> \<not> truthyValue (readTable tbl (urlOf (coins ! i))) \<longrightarrow>
            (\<exists>s. member (dataRows (processCryptoData tbl e coins) ! i) ''followers'' = Some (JStr s)
                 \<and> s \<noteq> [] \<and> last s \<in> {CHR ''M'', CHR ''K''})))
   \<and> column ''followers'' (map toJSON (sampleData loaded)) =
     [Some (JStr ''5.2M''), Some (JStr ''3.1M''), Some (JStr ''1.8M''), Some (JStr ''2.4M''),
      Some (JStr ''1.9M''), Some (JStr ''3.5M''), Some (JStr ''2.8M''), Some (JStr ''1.2M'')]
   \<and> column ''followers'' (committedRows eT) =
     [Some (JStr ''5.2M''), Some (JStr ''3.1M''), Some (JStr ''1.8M''), Some (JStr ''2.4M''),
      Some (JStr ''1.9M''), Some (JStr ''3.5M''), Some (JStr ''2.8M''), Some (JStr ''1.2M''),
      Some (JStr ''890K''), Some (JStr ''1.1M'')]
   \<and> column ''rank'' (dataRows (scrape_twitter_POST actualTwitterFollowers scenarioEnv scenarioRequest)) =
     [Some (JNum 1), Some (JNum 2)]
   \<and> column ''twitter_handle'' (dataRows (scrape_twitter_POST actualTwitterFollowers scenarioEnv scenarioRequest)) =
     [Some (JStr ''alpha''), Some JNull]
   \<and> column ''followers'' (dataRows (scrape_twitter_POST actualTwitterFollowers scenarioEnv scenarioRequest)) =
     [Some (JStr ''2.5M''), Some (JStr ''No Twitter'')]
   \<and> parseFollowers ''2.5M'' = Finite 2500000"
proof (intro conjI impI)
  let ?st = "scrapeLoop tbl e (take i coins)"
  let ?row = "last (scrapedData (processCoin tbl e ?st (coins ! i)))"
  let ?count = "member (dataRows (processCryptoData tbl e coins) ! i) ''followers''"
  assume i: "i < length coins"
  then have row: "dataRows (processCryptoData tbl e coins) ! i = toJSON ?row"
    by (rule row_processCryptoData)
  show "\<not> numberOrNull ?count"
    unfolding row by (rule followers_never_number)
  {
    assume "\<not> hasTwitter (coins ! i)"
    then have "followers ?row = Text ''No Twitter''"
      by (simp add: processCoin_followers)
    then show "?count = Some (JStr ''No Twitter'')"
      unfolding row by (rule followers_toJSON)
  }
  {
    assume "hasTwitter (coins ! i) \<and> map_of tbl (urlOf (coins ! i)) = Some v \<and> v \<noteq> []"
    then have "followers ?row = Text v"
      by (simp add: processCoin_followers readTable_def)
    then show "?count = Some (JStr v)"
      unfolding row by (rule followers_toJSON)
  }
  {
    let ?s = "fallbackFollowers (market_cap (coins ! i)) (random e (draws ?st))"
    assume "hasTwitter (coins ! i) \<and> \<not> truthyValue (readTable tbl (urlOf (coins ! i)))"
    then have "followers ?row = Text ?s"
      by (auto simp add: processCoin_followers split: option.splits followers_value.splits)
    then have "?count = Some (JStr ?s)"
      unfolding row by (rule followers_toJSON)
    then show "\<exists>s. ?count = Some (JStr s) \<and> s \<noteq> [] \<and> last s \<in> {CHR ''M'', CHR ''K''}"
      using last_fallbackFollowers [of "market_cap (coins ! i)" "random e (draws ?st)"] by blast
  }
next
  show "column ''followers'' (map toJSON (sampleData loaded)) =
     [Some (JStr ''5.2M''), Some (JStr ''3.1M''), Some (JStr ''1.8M''), Some (JStr ''2.4M''),
      Some (JStr ''1.9M''), Some (JStr ''3.5M''), Some (JStr ''2.8M''), Some (JStr ''1.2M'')]"
    by (simp add: column_def followers_toJSON sampleData_def mkFollower_def)
next
  show "column ''followers'' (committedRows eT) =
     [Some (JStr ''5.2M''), Some (JStr ''3.1M''), Some (JStr ''1.8M''), Some (JStr ''2.4M''),
      Some (JStr ''1.9M''), Some (JStr ''3.5M''), Some (JStr ''2.8M''), Some (JStr ''1.2M''),
      Some (JStr ''890K''), Some (JStr ''1.1M'')]"
    unfolding committedRows_def
    using followers_listing [of eT]
      column_followers [of "scrapedData (scrapeLoop actualTwitterFollowers eT (snd (scrapeCoins coinGeckoData)))"
        "[''5.2M'', ''3.1M'', ''1.8M'', ''2.4M'', ''1.9M'', ''3.5M'', ''2.8M'', ''1.2M'', ''890K'', ''1.1M'']"]
    by simp
next
  show "column ''rank'' (dataRows (scrape_twitter_POST actualTwitterFollowers scenarioEnv scenarioRequest)) =
     [Some (JNum 1), Some (JNum 2)]"
    by (simp add: column_def rows_scenario scrapeLoop_scenario member_toJSON)
next
  show "column ''twitter_handle'' (dataRows (scrape_twitter_POST actualTwitterFollowers scenarioEnv scenarioRequest)) =
     [Some (JStr ''alpha''), Some JNull]"
    by (simp add: column_def rows_scenario scrapeLoop_scenario member_toJSON nullable_def)
next
  show "column ''followers'' (dataRows (scrape_twitter_POST actualTwitterFollowers scenarioEnv scenarioRequest)) =
     [Some (JStr ''2.5M''), Some (JStr ''No Twitter'')]"
    by (simp add: column_def rows_scenario scrapeLoop_scenario followers_toJSON)
next
  show "parseFollowers ''2.5M'' = Finite 2500000"
    by (rule parse_25M)
qed

text \<open>
  The theorem at the rows of Cardano, whose profile the table lists, of Record B, which
  has no handle, and of the coin whose profile the table does not list.
\<close>

theorem rows_carry_follower_text_witness:
  "hasTwitter ([cardanoCoin, recordB, unlistedCoin] ! 0)
   \<and> map_of actualTwitterFollowers (urlOf ([cardanoCoin, recordB, unlistedCoin] ! 0)) = Some ''1.2M''
   \<and> member (dataRows (processCryptoData actualTwitterFollowers steadyEnv
                [cardanoCoin, recordB, unlistedCoin]) ! 0) ''followers'' = Some (JStr ''1.2M'')
   \<and> \<not> hasTwitter ([cardanoCoin, recordB, unlistedCoin] ! 1)
   \<and> member (dataRows (processCryptoData actualTwitterFollowers steadyEnv
                [cardanoCoin, recordB, unlistedCoin]) ! 1) ''followers'' = Some (JStr ''No Twitter'')
   \<and> \<not> numberOrNull (member (dataRows (processCryptoData actualTwitterFollowers steadyEnv
                [cardanoCoin, recordB, unlistedCoin]) ! 2) ''followers'')"
proof -
  let ?coins = "[cardanoCoin, recordB, unlistedCoin]"
  have listed: "hasTwitter (?coins ! 0) \<and> map_of actualTwitterFollowers (urlOf (?coins ! 0)) = Some ''1.2M''
      \<and> ''1.2M'' \<noteq> []"
    by (simp add: hasTwitter_def urlOf_def cardanoCoin_def truthyStr_def actualTwitterFollowers_def)
  have none: "\<not> hasTwitter (?coins ! 1)"
    by (simp add: hasTwitter_def recordB_def truthyStr_def)
  have first: "0 < length ?coins" and second: "1 < length ?coins" and third: "2 < length ?coins"
    by simp_all
  note a = rows_carry_follower_text
    [where tbl = actualTwitterFollowers and e = steadyEnv and coins = ?coins and i = 0
       and v = "''1.2M''",
     THEN conjunct1, THEN mp, OF first, THEN conjunct2, THEN conjunct2, THEN conjunct1,
     THEN mp, OF listed]
  note b = rows_carry_follower_text
    [where tbl = actualTwitterFollowers and e = steadyEnv and coins = ?coins and i = 1,
     THEN conjunct1, THEN mp, OF second, THEN conjunct2, THEN conjunct1, THEN mp, OF none]
  note c = rows_carry_follower_text
    [where tbl = actualTwitterFollowers and e = steadyEnv and coins = ?coins and i = 2,
     THEN conjunct1, THEN mp, OF third, THEN conjunct1]
  from listed none a b c show ?thesis
    by simp
qed

text \<open>
  Claim C8 as the specification states it fails in its own scenario: the follower
  counts of the two merged rows are the texts \<open>"2.5M"\<close> and \<open>"No Twitter"\<close>, not the
  integer 2,500,000 and \<open>null\<close>.
\<close>

theorem scenario_followers_are_texts:
  "column ''followers'' (dataRows (scrape_twitter_POST actualTwitterFollowers scenarioEnv scenarioRequest)) =
     [Some (JStr ''2.5M''), Some (JStr ''No Twitter'')]
   \<and> column ''followers'' (dataRows (scrape_twitter_POST actualTwitterFollowers scenarioEnv scenarioRequest)) \<noteq>
     [Some (JNum 2500000), Some JNull]"
  by (simp add: column_def rows_scenario scrapeLoop_scenario followers_toJSON)

section \<open>Properties of a run\<close>

lemma scrapeCoin_pushes_one:
  "\<exists>c. snd (scrapeCoin acc coin) = snd acc @ [c] \<and> rank c = CoinGeckoEntry.rank coin"
  by (simp add: scrapeCoin_def Let_def)

lemma ranks_foldl_scrapeCoin:
  "map rank (snd (foldl scrapeCoin acc entries)) =
     map rank (snd acc) @ map CoinGeckoEntry.rank entries"
proof (induction entries arbitrary: acc)
  case Nil
  show ?case by simp
next
  case (Cons coin entries)
  obtain c where "snd (scrapeCoin acc coin) = snd acc @ [c]" "rank c = CoinGeckoEntry.rank coin"
    using scrapeCoin_pushes_one by blast
  then show ?case by (simp add: Cons.IH)
qed

lemma ranks_scrapeCoins:
  "map rank (snd (scrapeCoins entries)) = map CoinGeckoEntry.rank entries"
  by (simp add: scrapeCoins_def ranks_foldl_scrapeCoin)

lemma ranks_coinGeckoData:
  "map CoinGeckoEntry.rank coinGeckoData = [1, 2, 3, 4, 5, 6, 7, 8, 9, 10]"
  by (simp add: coinGeckoData_def entry_def)

lemma urls_coinGeckoData:
  "fst (scrapeCoins coinGeckoData) =
     [''https://x.com/bitcoin'', ''https://x.com/ethereum'', ''https://x.com/Tether_to'',
      ''https://x.com/BNBCHAIN'', ''https://x.com/solana'', ''https://x.com/Ripple'',
      ''https://x.com/dogecoin'', ''https://x.com/Cardano'', ''https://x.com/avax'',
      ''https://x.com/chainlink'']"
  by (simp add: scrapeCoins_def coinGeckoData_def entry_def scrapeCoin_def truthyStr_def Let_def)

text \<open>The listing as the follower route receives it, and the rows a run commits.\<close>

lemma listing_response:
  "scrape_coingecko_POST eL =
     (200, \<lparr>success = True, totalCoins = length (snd (scrapeCoins coinGeckoData)),
            twitterAccounts = 10, coinData = snd (scrapeCoins coinGeckoData),
            twitterUrls = fst (scrapeCoins coinGeckoData), timestamp = clock eL 0\<rparr>)"
  by (simp add: scrape_coingecko_POST_def Let_def urls_coinGeckoData)

lemma twitter_response_of_listing:
  "scrape_twitter_POST tbl eT
     (Inr (Some \<lparr>cryptoData = Some coins, twitterUrls = Some (fst (scrapeCoins coinGeckoData))\<rparr>)) =
   processCryptoData tbl eT coins"
  by (simp add: scrape_twitter_POST_def Let_def urls_coinGeckoData)

lemma processCryptoData_ok:
  "ok (processCryptoData tbl e coins)"
  "member (body (processCryptoData tbl e coins)) ''data'' =
     Some (JArr (map toJSON (scrapedData (scrapeLoop tbl e coins))))"
  "member (body (processCryptoData tbl e coins)) ''scraped'' =
     Some (JNum (of_nat (length coins)))"
  by (simp_all add: processCryptoData_def json_response_def ok_def member_def Let_def
        length_scrapeLoop)

lemma store_of_array:
  "snd (followers_POST (Inr (JObj [(''data'', JArr rows)])) st) = rows"
  by (simp add: followers_POST_def)

lemma one_run_commits:
  assumes "pending sys = []" and "\<not> scraping (ui sys)"
  shows "server (exec eL eT loaded sys oneRun) = committedRows eT"
  using assms
  by (simp add: committedRows_def exec_def oneRun_def fire_def click_def runFullScraper_def afterListing_def
        listing_response afterTimer3000_def afterTimer5000_def afterTwitter_def
        twitter_response_of_listing processCryptoData_ok afterStore_def store_of_array
        afterRefresh_def Let_def)

subsection \<open>Invariants of the event system\<close>

lemma take_task_split:
  "take_task ev ts = Some (t, rest) \<Longrightarrow>
     \<exists>xs ys. ts = xs @ t # ys \<and> rest = xs @ ys \<and> completes t = ev"
proof (induction ts arbitrary: rest)
  case Nil
  then show ?case by simp
next
  case (Cons a ts)
  show ?case
  proof (cases "completes a = ev")
    case True
    with Cons.prems have "t = a" "rest = ts" by simp_all
    with True show ?thesis by blast
  next
    case False
    with Cons.prems obtain us where us: "take_task ev ts = Some (t, us)" "rest = a # us"
      by (auto split: option.splits)
    from Cons.IH [OF us(1)] obtain xs ys where "ts = xs @ t # ys" "us = xs @ ys" "completes t = ev"
      by blast
    with us(2) have "a # ts = (a # xs) @ t # ys \<and> rest = (a # xs) @ ys \<and> completes t = ev"
      by simp
    then show ?thesis by blast
  qed
qed

lemma take_task_list_all:
  assumes "take_task ev ts = Some (t, rest)" and "list_all P ts"
  shows "P t" and "list_all P rest"
  using take_task_split [OF assms(1)] assms(2) by auto

lemma take_task_count:
  assumes "take_task ev ts = Some (t, rest)"
  shows "length (filter P ts) = (if P t then 1 else 0) + length (filter P rest)"
  using take_task_split [OF assms] by auto

lemma take_task_Click: "take_task Click ts = Some (t, rest) \<Longrightarrow> False"
  using take_task_split [of Click ts t rest] by (cases t) auto

text \<open>
  First invariant: the store holds nothing or the rows of the listing, and every task
  under way carries the listing.
\<close>

lemma fire_keeps_listing:
  assumes store: "server sys = [] \<or> server sys = committedRows eT"
    and tasks: "list_all (carriesListing eL eT) (pending sys)"
  shows "(server (fire eL eT loaded sys ev) = [] \<or> server (fire eL eT loaded sys ev) = committedRows eT)
         \<and> list_all (carriesListing eL eT) (pending (fire eL eT loaded sys ev))"
proof (cases "ev = Click")
  case True
  with store tasks show ?thesis
    by (simp add: fire_def click_def runFullScraper_def)
next
  case notClick: False
  show ?thesis
  proof (cases "take_task ev (pending sys)")
    case None
    with notClick store tasks show ?thesis by (simp add: fire_def)
  next
    case (Some found)
    obtain t rest where found: "found = (t, rest)" by (cases found)
    note tk = Some [unfolded found]
    have t: "carriesListing eL eT t" and rest: "list_all (carriesListing eL eT) rest"
      using take_task_list_all [OF tk tasks] by simp_all
    show ?thesis
    proof (cases t)
      case ListingRequest
      with notClick tk store rest show ?thesis
        by (simp add: fire_def afterListing_def listing_response)
    next
      case (Timer3000 r)
      with t have "r = snd (scrape_coingecko_POST eL)" by simp
      with Timer3000 notClick tk store rest show ?thesis
        by (simp add: fire_def afterTimer3000_def listing_response)
    next
      case Timer5000
      with notClick tk store rest show ?thesis
        by (simp add: fire_def afterTimer5000_def)
    next
      case (TwitterRequest b)
      with t have b: "b = \<lparr>cryptoData = Some (snd (scrapeCoins coinGeckoData)),
           twitterUrls = Some (fst (scrapeCoins coinGeckoData))\<rparr>" by simp
      with TwitterRequest notClick tk store rest show ?thesis
        by (simp add: fire_def afterTwitter_def twitter_response_of_listing processCryptoData_ok
              committedRows_def)
    next
      case (StoreRequest d)
      with t have "d = Some (JArr (committedRows eT))" by simp
      with StoreRequest notClick tk rest show ?thesis
        by (simp add: fire_def afterStore_def store_of_array)
    next
      case Refresh
      with notClick tk store rest show ?thesis
        by (simp add: fire_def afterRefresh_def Let_def)
    qed
  qed
qed

lemma exec_snoc: "exec eL eT loaded sys (evs @ [ev]) = fire eL eT loaded (exec eL eT loaded sys evs) ev"
  by (simp add: exec_def)

lemma exec_keeps_listing:
  "(server (exec eL eT loaded atRest evs) = [] \<or> server (exec eL eT loaded atRest evs) = committedRows eT)
   \<and> list_all (carriesListing eL eT) (pending (exec eL eT loaded atRest evs))"
proof (induction evs rule: rev_induct)
  case Nil
  show ?case by (simp add: exec_def atRest_def initialStore_def)
next
  case (snoc ev evs)
  then show ?case
    using fire_keeps_listing [of "exec eL eT loaded atRest evs" eT eL loaded ev]
    by (simp add: exec_snoc)
qed

lemma ranks_committedRows:
  "column ''rank'' (committedRows eT) =
     map (\<lambda>r. Some (JNum (of_int r))) [1, 2, 3, 4, 5, 6, 7, 8, 9, 10]"
proof -
  have "column ''rank'' (committedRows eT) =
      map (\<lambda>r. Some (JNum (of_int r)))
        (map rank (scrapedData (scrapeLoop actualTwitterFollowers eT (snd (scrapeCoins coinGeckoData)))))"
    by (simp add: column_def committedRows_def member_toJSON comp_def)
  then show ?thesis
    by (simp only: ranks_scrapeLoop ranks_scrapeCoins ranks_coinGeckoData)
qed

text \<open>
  Claim C4. Merging keeps every rank at its place: the rows of the follower stage have
  the ranks of the coins they were made of, in the same order. The listing produces the
  ranks 1 to 10, without duplicates. A run started with nothing under way leaves in the
  store rows with exactly the ranks of the listing, in its order; and after any sequence
  of events from rest the store is still empty or holds rows with exactly those ranks.
\<close>

theorem committed_ranks_are_listing_ranks:
  "map rank (scrapedData (scrapeLoop tbl e coins)) = map rank coins
   \<and> map rank (coinData (snd (scrape_coingecko_POST eL))) = [1, 2, 3, 4, 5, 6, 7, 8, 9, 10]
   \<and> distinct (map rank (coinData (snd (scrape_coingecko_POST eL))))
   \<and> (pending sys = [] \<and> \<not> scraping (ui sys) \<longrightarrow>
        column ''rank'' (server (exec eL eT loaded sys oneRun)) =
          map (\<lambda>c. Some (JNum (of_int (rank c)))) (coinData (snd (scrape_coingecko_POST eL))))
   \<and> (server (exec eL eT loaded atRest evs) = []
        \<or> column ''rank'' (server (exec eL eT loaded atRest evs)) =
            map (\<lambda>c. Some (JNum (of_int (rank c)))) (coinData (snd (scrape_coingecko_POST eL))))"
proof -
  have listing: "map rank (coinData (snd (scrape_coingecko_POST eL))) = [1, 2, 3, 4, 5, 6, 7, 8, 9, 10]"
    by (simp add: listing_response ranks_scrapeCoins ranks_coinGeckoData)
  have "map (\<lambda>c. Some (JNum (of_int (rank c)))) (coinData (snd (scrape_coingecko_POST eL))) =
      map (\<lambda>r. Some (JNum (of_int r))) (map rank (coinData (snd (scrape_coingecko_POST eL))))"
    by (simp add: comp_def)
  then have json: "map (\<lambda>c. Some (JNum (of_int (rank c)))) (coinData (snd (scrape_coingecko_POST eL))) =
      column ''rank'' (committedRows eT)"
    by (simp only: listing ranks_committedRows)
  have run: "column ''rank'' (server (exec eL eT loaded sys oneRun)) =
          map (\<lambda>c. Some (JNum (of_int (rank c)))) (coinData (snd (scrape_coingecko_POST eL)))"
    if "pending sys = [] \<and> \<not> scraping (ui sys)"
  proof -
    from that have "server (exec eL eT loaded sys oneRun) = committedRows eT"
      by (simp add: one_run_commits)
    then show ?thesis by (simp only: json)
  qed
  have always: "server (exec eL eT loaded atRest evs) = []
        \<or> column ''rank'' (server (exec eL eT loaded atRest evs)) =
            map (\<lambda>c. Some (JNum (of_int (rank c)))) (coinData (snd (scrape_coingecko_POST eL)))"
  proof (cases "server (exec eL eT loaded atRest evs) = []")
    case True
    then show ?thesis by simp
  next
    case False
    with exec_keeps_listing [of eL eT loaded evs]
    have "server (exec eL eT loaded atRest evs) = committedRows eT" by simp
    then show ?thesis by (simp only: json) simp
  qed
  from listing have "distinct (map rank (coinData (snd (scrape_coingecko_POST eL))))"
    by simp
  with listing run always ranks_scrapeLoop [of tbl e coins] show ?thesis
    by blast
qed

text \<open>The theorem at one run from rest.\<close>

theorem committed_ranks_are_listing_ranks_witness:
  "pending atRest = [] \<and> \<not> scraping (ui atRest)
   \<and> column ''rank''
       (server (exec steadyEnv steadyEnv ''2024-03-06T00:00:00.000Z'' atRest oneRun)) =
     [Some (JNum 1), Some (JNum 2), Some (JNum 3), Some (JNum 4), Some (JNum 5),
      Some (JNum 6), Some (JNum 7), Some (JNum 8), Some (JNum 9), Some (JNum 10)]"
proof -
  have rest: "pending atRest = [] \<and> \<not> scraping (ui atRest)"
    by (simp add: atRest_def)
  from committed_ranks_are_listing_ranks
    [where sys = atRest and eL = steadyEnv and eT = steadyEnv
       and loaded = "''2024-03-06T00:00:00.000Z''"]
  have run: "column ''rank''
       (server (exec steadyEnv steadyEnv ''2024-03-06T00:00:00.000Z'' atRest oneRun)) =
     map (\<lambda>c. Some (JNum (of_int (rank c)))) (coinData (snd (scrape_coingecko_POST steadyEnv)))"
    and listing: "map rank (coinData (snd (scrape_coingecko_POST steadyEnv))) = [1, 2, 3, 4, 5, 6, 7, 8, 9, 10]"
    using rest by blast+
  have "map (\<lambda>c. Some (JNum (of_int (rank c)))) (coinData (snd (scrape_coingecko_POST steadyEnv))) =
      map (\<lambda>r. Some (JNum (of_int r))) (map rank (coinData (snd (scrape_coingecko_POST steadyEnv))))"
    by (simp add: comp_def)
  also have "\<dots> = map (\<lambda>r. Some (JNum (of_int r))) [1, 2, 3, 4, 5, 6, 7, 8, 9, 10]"
    by (simp only: listing)
  finally have "column ''rank''
       (server (exec steadyEnv steadyEnv ''2024-03-06T00:00:00.000Z'' atRest oneRun)) =
     map (\<lambda>r. Some (JNum (of_int r))) [1, 2, 3, 4, 5, 6, 7, 8, 9, 10]"
    using run by simp
  with rest show ?thesis by simp
qed

section \<open>Properties of the trigger\<close>

lemma scrape_twitter_POST_ok: "ok (scrape_twitter_POST tbl e (Inr (Some b)))"
  by (simp add: scrape_twitter_POST_def processCryptoData_ok Let_def)

lemma length_scrapeCoins: "length (snd (scrapeCoins coinGeckoData)) = 10"
proof -
  have "length (map rank (snd (scrapeCoins coinGeckoData))) = length (map CoinGeckoEntry.rank coinGeckoData)"
    by (simp only: ranks_scrapeCoins)
  then show ?thesis
    by (simp add: ranks_coinGeckoData del: length_map) (simp add: coinGeckoData_def)
qed

text \<open>
  Second invariant: the flag \<open>scraping\<close> is set exactly while a listing request or a
  5000 ms timer is under way, there is at most one of them, and the step shows the
  listing or the follower stage only while the flag is set.
\<close>

lemma fire_keeps_gate:
  assumes count: "length (filter holdsButton (pending sys)) = (if scraping (ui sys) then 1 else 0)"
    and shown: "scrapingStep (ui sys) = CoinGecko \<or> scrapingStep (ui sys) = Twitter \<longrightarrow> scraping (ui sys)"
  shows "length (filter holdsButton (pending (fire eL eT loaded sys ev))) =
           (if scraping (ui (fire eL eT loaded sys ev)) then 1 else 0)
         \<and> (scrapingStep (ui (fire eL eT loaded sys ev)) = CoinGecko
              \<or> scrapingStep (ui (fire eL eT loaded sys ev)) = Twitter
            \<longrightarrow> scraping (ui (fire eL eT loaded sys ev)))"
proof (cases "ev = Click")
  case True
  with count shown show ?thesis
    by (simp add: fire_def click_def runFullScraper_def)
next
  case notClick: False
  show ?thesis
  proof (cases "take_task ev (pending sys)")
    case None
    with notClick count shown show ?thesis by (simp add: fire_def)
  next
    case (Some found)
    obtain t rest where found: "found = (t, rest)" by (cases found)
    note tk = Some [unfolded found]
    have split: "length (filter holdsButton (pending sys)) =
        (if holdsButton t then 1 else 0) + length (filter holdsButton rest)"
      by (rule take_task_count [OF tk])
    show ?thesis
    proof (cases t)
      case ListingRequest
      with split count have "scraping (ui sys)" "length (filter holdsButton rest) = 0"
        by (auto split: if_splits)
      with ListingRequest notClick tk show ?thesis
        by (simp add: fire_def afterListing_def listing_response)
    next
      case (Timer3000 r)
      with split count shown notClick tk show ?thesis
        by (simp add: fire_def afterTimer3000_def)
    next
      case Timer5000
      with split count have "length (filter holdsButton rest) = 0"
        by (auto split: if_splits)
      with Timer5000 notClick tk show ?thesis
        by (simp add: fire_def afterTimer5000_def)
    next
      case (TwitterRequest b)
      with split count shown notClick tk show ?thesis
        by (simp add: fire_def afterTwitter_def scrape_twitter_POST_ok Let_def)
    next
      case (StoreRequest d)
      with split count shown notClick tk show ?thesis
        by (simp add: fire_def afterStore_def Let_def)
    next
      case Refresh
      with split count shown notClick tk show ?thesis
        by (simp add: fire_def afterRefresh_def Let_def)
    qed
  qed
qed

lemma exec_keeps_gate:
  "length (filter holdsButton (pending (exec eL eT loaded atRest evs))) =
     (if scraping (ui (exec eL eT loaded atRest evs)) then 1 else 0)
   \<and> (scrapingStep (ui (exec eL eT loaded atRest evs)) = CoinGecko
        \<or> scrapingStep (ui (exec eL eT loaded atRest evs)) = Twitter
      \<longrightarrow> scraping (ui (exec eL eT loaded atRest evs)))"
proof (induction evs rule: rev_induct)
  case Nil
  show ?case by (simp add: exec_def atRest_def)
next
  case (snoc ev evs)
  then show ?case
    using fire_keeps_gate [of "exec eL eT loaded atRest evs" eL eT loaded ev]
    by (simp only: exec_snoc) blast
qed

text \<open>
  Claim C6, as the code has it. A trigger is gated by the button alone, and no signal
  answers it. While the flag \<open>scraping\<close> is set, a click calls nothing: the dashboard's
  state, the store and the tasks under way stay as they are. In every state reached
  from rest in which the step shows the listing or the follower stage the flag is set,
  so a click changes nothing there. With the flag clear and nothing under way, a click
  starts a run: it sets the flag, shows the listing step and sends the listing request.
  A click never touches the store. The listing route keeps no state: it answers every
  request with status 200 and \<open>success\<close>.
\<close>

theorem click_is_gated_by_the_flag_alone:
  "(scraping (ui sys) \<longrightarrow> fire eL eT loaded sys Click = sys)
   \<and> (\<not> scraping (ui sys) \<and> pending sys = [] \<longrightarrow>
        fire eL eT loaded sys Click =
          sys\<lparr>ui := (ui sys)\<lparr>scraping := True, scrapingStep := CoinGecko,
                                scrapingStatus := StartingCoinGecko\<rparr>,
              pending := [ListingRequest]\<rparr>)
   \<and> server (fire eL eT loaded sys Click) = server sys
   \<and> (scrapingStep (ui (exec eL eT loaded atRest evs)) = CoinGecko
        \<or> scrapingStep (ui (exec eL eT loaded atRest evs)) = Twitter \<longrightarrow>
      scraping (ui (exec eL eT loaded atRest evs))
      \<and> fire eL eT loaded (exec eL eT loaded atRest evs) Click = exec eL eT loaded atRest evs)
   \<and> fst (scrape_coingecko_POST e) = 200
   \<and> success (snd (scrape_coingecko_POST e))"
proof (intro conjI impI)
  assume "scraping (ui sys)"
  then show "fire eL eT loaded sys Click = sys"
    by (simp add: fire_def click_def)
next
  assume "\<not> scraping (ui sys) \<and> pending sys = []"
  then show "fire eL eT loaded sys Click =
          sys\<lparr>ui := (ui sys)\<lparr>scraping := True, scrapingStep := CoinGecko,
                                scrapingStatus := StartingCoinGecko\<rparr>,
              pending := [ListingRequest]\<rparr>"
    by (simp add: fire_def click_def runFullScraper_def)
next
  show "server (fire eL eT loaded sys Click) = server sys"
    by (simp add: fire_def click_def runFullScraper_def)
next
  assume shown: "scrapingStep (ui (exec eL eT loaded atRest evs)) = CoinGecko
        \<or> scrapingStep (ui (exec eL eT loaded atRest evs)) = Twitter"
  with exec_keeps_gate [of eL eT loaded evs]
  show flag: "scraping (ui (exec eL eT loaded atRest evs))" by blast
  then show "fire eL eT loaded (exec eL eT loaded atRest evs) Click = exec eL eT loaded atRest evs"
    by (simp add: fire_def click_def)
next
  show "fst (scrape_coingecko_POST e) = 200"
    by (simp add: listing_response)
next
  show "success (snd (scrape_coingecko_POST e))"
    by (simp add: listing_response)
qed

lemmas run_eval = exec_def fire_def click_def runFullScraper_def afterListing_def listing_response
  afterTimer3000_def atRest_def

text \<open>
  The theorem at rest, where the flag is clear and nothing is under way, and after a
  click and the listing's response, where the step shows the follower stage.
\<close>

theorem click_is_gated_by_the_flag_alone_witness:
  "\<not> scraping (ui atRest) \<and> pending atRest = []
   \<and> fire steadyEnv steadyEnv ''2024-03-06T00:00:00.000Z'' atRest Click =
       atRest\<lparr>ui := (ui atRest)\<lparr>scraping := True, scrapingStep := CoinGecko,
                                   scrapingStatus := StartingCoinGecko\<rparr>,
              pending := [ListingRequest]\<rparr>
   \<and> scrapingStep (ui (exec steadyEnv steadyEnv ''2024-03-06T00:00:00.000Z'' atRest [Click, ListingResponse]))
       = Twitter
   \<and> scraping (ui (exec steadyEnv steadyEnv ''2024-03-06T00:00:00.000Z'' atRest [Click, ListingResponse]))
   \<and> fire steadyEnv steadyEnv ''2024-03-06T00:00:00.000Z''
        (exec steadyEnv steadyEnv ''2024-03-06T00:00:00.000Z'' atRest [Click, ListingResponse]) Click =
       exec steadyEnv steadyEnv ''2024-03-06T00:00:00.000Z'' atRest [Click, ListingResponse]"
proof -
  let ?t = "''2024-03-06T00:00:00.000Z''"
  have rest: "\<not> scraping (ui atRest) \<and> pending atRest = []"
    by (simp add: atRest_def)
  have shown: "scrapingStep (ui (exec steadyEnv steadyEnv ?t atRest [Click, ListingResponse])) = Twitter"
    by (simp add: run_eval)
  note gated = click_is_gated_by_the_flag_alone
    [where eL = steadyEnv and eT = steadyEnv and loaded = ?t and evs = "[Click, ListingResponse]"
       and sys = atRest]
  from gated rest
  have start: "fire steadyEnv steadyEnv ?t atRest Click =
       atRest\<lparr>ui := (ui atRest)\<lparr>scraping := True, scrapingStep := CoinGecko,
                                   scrapingStatus := StartingCoinGecko\<rparr>,
              pending := [ListingRequest]\<rparr>"
    by blast
  from gated shown
  have ignored: "scraping (ui (exec steadyEnv steadyEnv ?t atRest [Click, ListingResponse]))
      \<and> fire steadyEnv steadyEnv ?t
        (exec steadyEnv steadyEnv ?t atRest [Click, ListingResponse]) Click =
       exec steadyEnv steadyEnv ?t atRest [Click, ListingResponse]"
    by blast
  from rest start shown ignored show ?thesis by blast
qed

text \<open>
  Claim C6 as the specification states it fails. After a click and the listing's
  response a run is active: the flag is set, the step shows the follower stage and the
  timers of the run are under way. A trigger that reaches the listing route then is
  answered as every other one, with status 200, \<open>success\<close> and the ten coins, and a
  click on the disabled button is answered by nothing at all.
\<close>

theorem trigger_during_run_is_not_answered_busy:
  "scraping (ui (exec steadyEnv steadyEnv ''2024-03-06T00:00:00.000Z'' atRest
       [Click, ListingResponse])) = True
   \<and> scrapingStep (ui (exec steadyEnv steadyEnv ''2024-03-06T00:00:00.000Z'' atRest
       [Click, ListingResponse])) = Twitter
   \<and> map completes (pending (exec steadyEnv steadyEnv ''2024-03-06T00:00:00.000Z'' atRest
       [Click, ListingResponse])) = [Timer3000Fires, Timer5000Fires]
   \<and> fst (scrape_coingecko_POST steadyEnv) = 200
   \<and> success (snd (scrape_coingecko_POST steadyEnv)) = True
   \<and> totalCoins (snd (scrape_coingecko_POST steadyEnv)) = 10
   \<and> exec steadyEnv steadyEnv ''2024-03-06T00:00:00.000Z'' atRest [Click, ListingResponse, Click] =
       exec steadyEnv steadyEnv ''2024-03-06T00:00:00.000Z'' atRest [Click, ListingResponse]"
  by (simp add: run_eval length_scrapeCoins)

end
